theory Spec2Isabelle
  imports Complex_Main "HOL-Library.Sublist"
begin

section \<open>JavaScript values used by the components\<close>

text \<open>
  Strings are lists of code units below 256 (the Latin-1 range), so that string literals
  of the source can be written as they are. On that range \<open>String.prototype.toLowerCase\<close>
  adds 32 to the letters A-Z and to the accented capitals 192-222 (except the
  multiplication sign 215), and \<open>String.prototype.trim\<close> strips the white space
  and line terminators 9-13, 32 and 160 from both ends.
\<close>

datatype error = TypeError

text \<open>
  The outcome of a method: it returns, or it throws. Both carry the state at that moment,
  because a method may have assigned fields before the statement that throws.
\<close>

datatype 's outcome = Returns 's | Throws error 's

fun state_of :: "'s outcome \<Rightarrow> 's" where
  "state_of (Returns s) = s"
| "state_of (Throws e s) = s"

definition toLowerCase_char :: "char \<Rightarrow> char" where
  "toLowerCase_char c =
     (let n = (of_char c :: nat)
      in if (65 \<le> n \<and> n \<le> 90) \<or> (192 \<le> n \<and> n \<le> 222 \<and> n \<noteq> 215)
         then char_of (n + 32) else c)"

definition toLowerCase :: "string \<Rightarrow> string" where
  "toLowerCase s = map toLowerCase_char s"

definition isWhiteSpace :: "char \<Rightarrow> bool" where
  "isWhiteSpace c = ((of_char c :: nat) \<in> {9, 10, 11, 12, 13, 32, 160})"

definition trim :: "string \<Rightarrow> string" where
  "trim s = rev (dropWhile isWhiteSpace (rev (dropWhile isWhiteSpace s)))"

fun startsWith :: "string \<Rightarrow> string \<Rightarrow> bool" where
  "startsWith s [] = True"
| "startsWith [] (q # qs) = False"
| "startsWith (c # cs) (q # qs) = (c = q \<and> startsWith cs qs)"

text \<open>\<open>s.includes(q)\<close>: \<open>q\<close> occurs in \<open>s\<close> at some position.\<close>

fun includesStr :: "string \<Rightarrow> string \<Rightarrow> bool" where
  "includesStr [] q = (q = [])"
| "includesStr (c # cs) q = (startsWith (c # cs) q \<or> includesStr cs q)"

text \<open>\<open>parts.join(sep)\<close> on an array of strings.\<close>

fun join :: "string \<Rightarrow> string list \<Rightarrow> string" where
  "join sep [] = []"
| "join sep [x] = x"
| "join sep (x # y # ys) = x @ sep @ join sep (y # ys)"

text \<open>
  \<open>xs[i]\<close> for a number \<open>i\<close>: the element, or \<open>undefined\<close> (\<open>None\<close>) when \<open>i\<close>
  is negative or not below the length.
\<close>

definition at_index :: "'a list \<Rightarrow> int \<Rightarrow> 'a option" where
  "at_index xs i = (if 0 \<le> i \<and> i < int (length xs) then Some (xs ! nat i) else None)"

text \<open>\<open>xs.indexOf(x)\<close>: the first position holding \<open>x\<close>, or -1.\<close>

fun indexOf :: "'a list \<Rightarrow> 'a \<Rightarrow> int" where
  "indexOf [] x = -1"
| "indexOf (y # ys) x =
     (if y = x then 0 else (let k = indexOf ys x in if k < 0 then -1 else k + 1))"

text \<open>
  \<open>xs.splice(start, 1)\<close>: a negative start counts from the end (and is clamped at 0), a
  start beyond the end is clamped to the length, and at most one element is removed.
\<close>

definition splice1 :: "int \<Rightarrow> 'a list \<Rightarrow> 'a list" where
  "splice1 start xs =
     (let len = int (length xs);
          actualStart = (if start < 0 then max (len + start) 0 else min start len);
          deleteCount = min 1 (len - actualStart)
      in take (nat actualStart) xs @ drop (nat (actualStart + deleteCount)) xs)"

text \<open>Decimal digits of a number, as template literals print a non-negative integer.\<close>

function string_of_nat :: "nat \<Rightarrow> string" where
  "string_of_nat n =
     (if n < 10 then [char_of (48 + n)]
      else string_of_nat (n div 10) @ [char_of (48 + n mod 10)])"
  by pat_completeness auto
termination
  by (relation "measure (\<lambda>n. n)") auto

declare string_of_nat.simps [simp del]

section \<open>HistoryComponent\<close>

text \<open>
  A post record of the history list. The optional fields \<open>caption\<close> and \<open>tags\<close> are
  \<open>None\<close> when absent.
\<close>

record PostHistory =
  title :: string
  description :: string
  caption :: "string option"
  date :: string
  tags :: "string list option"

text \<open>
  Post objects live in a store and the arrays hold references to them:
  \<open>history.indexOf(post)\<close> compares by object identity, so two posts with equal fields
  are still two entries. \<open>heap\<close> gives the fields of every object, \<open>fresh\<close> is the
  first unused address. The two arrays \<open>history\<close> and \<open>filteredHistory\<close> are never the
  same array object (the component only assigns copies and filter results), so each is a
  list value. \<open>localStorage\<close> maps keys to stored text.
\<close>

type_synonym ref = nat

record HistoryComponent =
  heap :: "ref \<Rightarrow> PostHistory"
  fresh :: ref
  localStorage :: "string \<rightharpoonup> string"
  history :: "ref list"
  filteredHistory :: "ref list"
  searchQuery :: string

text \<open>The text of a post that \<open>applyFilter\<close> searches, before lower-casing.\<close>

definition searchFields :: "PostHistory \<Rightarrow> string list" where
  "searchFields post =
     [title post, description post, (case caption post of None \<Rightarrow> [] | Some c \<Rightarrow> c)]
     @ (case tags post of None \<Rightarrow> [] | Some ts \<Rightarrow> ts)"

definition applyFilter :: "HistoryComponent \<Rightarrow> HistoryComponent" where
  "applyFilter s =
     (let q = trim (toLowerCase (searchQuery s))
      in s\<lparr>filteredHistory :=
              (if q = [] then history s
               else filter (\<lambda>post. includesStr (toLowerCase (join '' '' (searchFields (heap s post)))) q)
                      (history s))\<rparr>)"

text \<open>
  \<open>getPlaceholderHistory\<close>: ten posts for \<open>i = 0, ..., 9\<close>. \<open>now\<close> is the text of
  \<open>new Date().toISOString()\<close>, read from the clock.
\<close>

definition getPlaceholderHistory :: "string \<Rightarrow> PostHistory list" where
  "getPlaceholderHistory now =
     map (\<lambda>i. \<lparr>title = ''Sample Post '' @ string_of_nat (i + 1),
                description = ''This is a sample description for post #'' @ string_of_nat (i + 1) @ ''.'',
                caption = Some (if i mod 2 = 0 then ''Example caption text.'' else []),
                date = now,
                tags = Some [''Demo'', ''History'', ''Tag'' @ string_of_nat (i mod 5)]\<rparr>)
         [0 ..< 10]"

text \<open>
  Creating the objects of an array of post records (what the object literals of
  \<open>getPlaceholderHistory\<close> and the objects built by \<open>JSON.parse\<close> are): each record gets
  the next unused address.
\<close>

definition allocate :: "PostHistory list \<Rightarrow> HistoryComponent \<Rightarrow> ref list \<times> HistoryComponent" where
  "allocate posts s =
     ([fresh s ..< fresh s + length posts],
      s\<lparr>heap := (\<lambda>r. if fresh s \<le> r \<and> r < fresh s + length posts
                        then posts ! (r - fresh s) else heap s r),
        fresh := fresh s + length posts\<rparr>)"

text \<open>
  \<open>loadHistory\<close>. \<open>JSON_parse\<close> is the platform's \<open>JSON.parse\<close> at the declared type
  \<open>PostHistory[]\<close>: \<open>None\<close> when it throws (the text is not valid JSON), which the
  \<open>catch\<close> block turns into the placeholder list. \<open>getItem\<close> returns \<open>null\<close> for an
  absent key, and \<open>null\<close> and the empty string are falsy. Stored text that parses to
  something other than an array of post records is outside this model.
\<close>

definition loadHistory ::
  "(string \<Rightarrow> PostHistory list option) \<Rightarrow> string \<Rightarrow> HistoryComponent \<Rightarrow> HistoryComponent" where
  "loadHistory JSON_parse now s =
     (let posts =
            (case localStorage s ''postHistory'' of
               None \<Rightarrow> getPlaceholderHistory now
             | Some stored \<Rightarrow>
                 if stored = [] then getPlaceholderHistory now
                 else (case JSON_parse stored of
                         None \<Rightarrow> getPlaceholderHistory now
                       | Some parsed \<Rightarrow> parsed));
          (refs, s') = allocate posts s
      in s'\<lparr>history := refs\<rparr>)"

definition ngOnInit ::
  "(string \<Rightarrow> PostHistory list option) \<Rightarrow> string \<Rightarrow> HistoryComponent \<Rightarrow> HistoryComponent" where
  "ngOnInit JSON_parse now s =
     (let s' = loadHistory JSON_parse now s in s'\<lparr>filteredHistory := history s'\<rparr>)"

text \<open>
  \<open>viewPost\<close> reads \<open>post.title\<close> of \<open>filteredHistory[index]\<close>, which throws a TypeError
  when the entry is \<open>undefined\<close>. It changes no field; the result is the three texts
  interpolated into the alert.
\<close>

definition viewPost :: "int \<Rightarrow> HistoryComponent \<Rightarrow> error + string list" where
  "viewPost index s =
     (case at_index (filteredHistory s) index of
        None \<Rightarrow> Inl TypeError
      | Some post \<Rightarrow>
          Inr [title (heap s post), description (heap s post),
               (case caption (heap s post) of None \<Rightarrow> [] | Some c \<Rightarrow> c)])"

text \<open>
  \<open>deletePost\<close>. \<open>confirm\<close> is the user's answer to the dialog with the given text, and
  \<open>JSON_stringify\<close> the platform's \<open>JSON.stringify\<close> on the array of post records. The
  dialog text reads \<open>post.title\<close>, so an \<open>undefined\<close> entry throws before the dialog.
\<close>

definition deletePost ::
  "(string \<Rightarrow> bool) \<Rightarrow> (PostHistory list \<Rightarrow> string) \<Rightarrow> int \<Rightarrow> HistoryComponent
     \<Rightarrow> HistoryComponent outcome" where
  "deletePost confirm JSON_stringify index s =
     (case at_index (filteredHistory s) index of
        None \<Rightarrow> Throws TypeError s
      | Some post \<Rightarrow>
          if confirm (''Delete '' @ [CHR 0x22] @ title (heap s post) @ [CHR 0x22] @ ''?'')
          then (let originalIndex = indexOf (history s) post;
                    spliced = splice1 originalIndex (history s);
                    s1 = s\<lparr>history := spliced,
                           localStorage := (localStorage s)
                             (''postHistory'' \<mapsto> JSON_stringify (map (heap s) spliced))\<rparr>
                in Returns (applyFilter s1))
          else Returns s)"

text \<open>
  What happens to the component after \<open>ngOnInit\<close>: \<open>searchQuery\<close> is a public field
  that the template binds to the search box, so a write to it is an event of its own, and
  the three public methods are called. \<open>DeletePost\<close> carries the index and the user's
  answer to the dialog. After a method that throws, the component stays as the method
  left it.
\<close>

datatype history_event =
    WriteSearchQuery string
  | ApplyFilter
  | ViewPost int
  | DeletePost int bool

fun handle_history ::
  "(PostHistory list \<Rightarrow> string) \<Rightarrow> history_event \<Rightarrow> HistoryComponent \<Rightarrow> HistoryComponent" where
  "handle_history JSON_stringify (WriteSearchQuery q) s = s\<lparr>searchQuery := q\<rparr>"
| "handle_history JSON_stringify ApplyFilter s = applyFilter s"
| "handle_history JSON_stringify (ViewPost index) s = s"
| "handle_history JSON_stringify (DeletePost index answer) s =
     state_of (deletePost (\<lambda>message. answer) JSON_stringify index s)"

fun run_history ::
  "(PostHistory list \<Rightarrow> string) \<Rightarrow> history_event list \<Rightarrow> HistoryComponent \<Rightarrow> HistoryComponent" where
  "run_history JSON_stringify [] s = s"
| "run_history JSON_stringify (ev # rest) s =
     run_history JSON_stringify rest (handle_history JSON_stringify ev s)"

text \<open>
  The reading of the filter in the specification: a post matches when one of its fields
  title, description, caption, or one of its tags, contains the term, ignoring case.
\<close>

definition someFieldContains :: "string \<Rightarrow> PostHistory \<Rightarrow> bool" where
  "someFieldContains term post =
     list_ex (\<lambda>field. includesStr (toLowerCase field) (toLowerCase term)) (searchFields post)"

text \<open>The filtered list under that reading.\<close>

definition specFilter :: "string \<Rightarrow> HistoryComponent \<Rightarrow> ref list" where
  "specFilter term s = filter (\<lambda>post. someFieldContains term (heap s post)) (history s)"

text \<open>
  The test \<open>applyFilter\<close> applies to a post, for both branches of its conditional: every
  post passes when the trimmed query is empty.
\<close>

definition matchesQuery :: "string \<Rightarrow> PostHistory \<Rightarrow> bool" where
  "matchesQuery query post =
     (let q = trim (toLowerCase query)
      in q = [] \<or> includesStr (toLowerCase (join '' '' (searchFields post))) q)"

text \<open>
  The component as constructed (\<open>history = []\<close>, \<open>filteredHistory = []\<close>,
  \<open>searchQuery = ''\<close>), in a store without post objects and with the given local
  storage.
\<close>

definition HistoryComponent_init :: "(string \<rightharpoonup> string) \<Rightarrow> HistoryComponent" where
  "HistoryComponent_init storage =
     \<lparr>heap = (\<lambda>_. \<lparr>title = [], description = [], caption = None, date = [], tags = None\<rparr>),
      fresh = 0, localStorage = storage, history = [], filteredHistory = [], searchQuery = []\<rparr>"

text \<open>
  Examples: a history of two post objects with the same fields (title \<open>a\<close>, description
  \<open>b\<close>) shown unfiltered, a user who confirms every dialog, a serialiser that writes the
  titles, and \<open>JSON.parse\<close> cut down to the one text \<open>[]\<close>.
\<close>

definition example_post :: PostHistory where
  "example_post =
     \<lparr>title = ''a'', description = ''b'', caption = None, date = ''2025-01-01'', tags = None\<rparr>"

definition example_history :: "string \<Rightarrow> HistoryComponent" where
  "example_history q =
     \<lparr>heap = (\<lambda>_. example_post), fresh = 2, localStorage = Map.empty,
      history = [0, 1], filteredHistory = [0, 1], searchQuery = q\<rparr>"

definition confirm_yes :: "string \<Rightarrow> bool" where
  "confirm_yes message = True"

definition stringify_titles :: "PostHistory list \<Rightarrow> string" where
  "stringify_titles posts = concat (map title posts)"

definition parse_only_empty_array :: "string \<Rightarrow> PostHistory list option" where
  "parse_only_empty_array text = (if text = ''[]'' then Some [] else None)"

text \<open>
  The component after \<open>ngOnInit\<close> with empty local storage, which holds the ten
  placeholder posts; and the same component after \<open>Tag0\<close> has been written to
  \<open>searchQuery\<close> and before \<open>applyFilter\<close> has run.
\<close>

definition example_loaded :: HistoryComponent where
  "example_loaded =
     run_history stringify_titles []
       (ngOnInit parse_only_empty_array ''2025-01-01T00:00:00.000Z''
          (HistoryComponent_init Map.empty))"

definition example_stale :: HistoryComponent where
  "example_stale =
     run_history stringify_titles [WriteSearchQuery ''Tag0'']
       (ngOnInit parse_only_empty_array ''2025-01-01T00:00:00.000Z''
          (HistoryComponent_init Map.empty))"

section \<open>DiscoverComponent\<close>

text \<open>
  A discover post; the field names carry the prefix \<open>dp_\<close> to keep them apart from those
  of the history posts. \<open>likes\<close> is a double that holds a whole number (it starts as
  \<open>Math.floor\<close> of a draw and only \<open>likes++\<close> changes it), kept as that whole number.
  \<open>discoverPosts\<close> is only ever assigned in \<open>generateMockData\<close>, one new object literal
  per entry, so no object occurs twice in it and the array is a list of records.
\<close>

record DiscoverPost =
  dp_title :: string
  dp_description :: string
  dp_author :: string
  likes :: int
  dp_tags :: "string list"
  dp_image :: "string option"

record DiscoverComponent =
  discoverPosts :: "DiscoverPost list"

definition sampleImages :: "string list" where
  "sampleImages =
     [''https://images.unsplash.com/photo-1507525428034-b723cf961d3e'',
      ''https://images.unsplash.com/photo-1522205408450-add114ad53fe'',
      ''https://images.unsplash.com/photo-1498050108023-c5249f4df085'',
      ''https://images.unsplash.com/photo-1506744038136-46273834b3fb'']"

text \<open>
  \<open>generateMockData\<close>; \<open>authorDraw i\<close> and \<open>likesDraw i\<close> are the values of
  \<open>Math.floor(Math.random() * 50)\<close> and \<open>Math.floor(Math.random() * 1000)\<close> for entry
  \<open>i\<close>.
\<close>

definition generateMockData ::
  "(nat \<Rightarrow> nat) \<Rightarrow> (nat \<Rightarrow> nat) \<Rightarrow> DiscoverComponent \<Rightarrow> DiscoverComponent" where
  "generateMockData authorDraw likesDraw s =
     s\<lparr>discoverPosts :=
         map (\<lambda>i. \<lparr>dp_title = ''Discover Post '' @ string_of_nat (i + 1),
                    dp_description = ''A fascinating post exploring AI, design, and creativity. Dive in to explore something new.'',
                    dp_author = ''User '' @ string_of_nat (authorDraw i + 1),
                    likes = int (likesDraw i),
                    dp_tags = [''AI'', ''Design'', ''Trending'', if i mod 2 = 0 then ''Featured'' else ''New''],
                    dp_image = Some (sampleImages ! (i mod length sampleImages))\<rparr>)
             [0 ..< 10]\<rparr>"

text \<open>
  \<open>x + 1\<close> on doubles, for a whole number \<open>x\<close>: the exact sum, rounded to the nearest
  double, a tie going to the double with the even significand. Up to \<open>2^53\<close> every whole
  number is a double; a double of magnitude \<open>m\<close> from \<open>2^53\<close> on is a multiple of
  \<open>ulp_of m\<close>, the distance between neighbouring doubles there. So below \<open>2^53\<close> the sum
  is exact, and \<open>2^53 + 1\<close> is \<open>2^53\<close> again.
\<close>

function ulp_of :: "int \<Rightarrow> int" where
  "ulp_of m = (if m < 2 ^ 53 then 1 else 2 * ulp_of (m div 2))"
  by pat_completeness auto
termination
  by (relation "measure (\<lambda>m. nat m)") auto

declare ulp_of.simps [simp del]

definition round_to_double :: "int \<Rightarrow> int" where
  "round_to_double m =
     (let u = ulp_of m; lo = (m div u) * u; r = m - lo
      in if 2 * r < u then lo
         else if u < 2 * r then lo + u
         else if even (m div u) then lo else lo + u)"

definition to_double :: "int \<Rightarrow> int" where
  "to_double v = sgn v * round_to_double \<bar>v\<bar>"

definition increment :: "int \<Rightarrow> int" where
  "increment x = to_double (x + 1)"

text \<open>
  \<open>likePost\<close>: \<open>this.discoverPosts[index].likes++\<close> reads \<open>likes\<close> of an \<open>undefined\<close>
  entry when the index is outside the array, which throws a TypeError.
\<close>

definition likePost :: "int \<Rightarrow> DiscoverComponent \<Rightarrow> DiscoverComponent outcome" where
  "likePost index s =
     (case at_index (discoverPosts s) index of
        None \<Rightarrow> Throws TypeError s
      | Some post \<Rightarrow>
          Returns (s\<lparr>discoverPosts :=
                       (discoverPosts s)[nat index := post\<lparr>likes := increment (likes post)\<rparr>]\<rparr>))"

text \<open>A series of clicks on the like buttons, given by their indices.\<close>

fun likePosts :: "int list \<Rightarrow> DiscoverComponent \<Rightarrow> DiscoverComponent" where
  "likePosts [] s = s"
| "likePosts (index # rest) s = likePosts rest (state_of (likePost index s))"

text \<open>\<open>DiscoverComponent.viewPost\<close>; the result is the two texts of the alert.\<close>

definition viewPost_discover :: "int \<Rightarrow> DiscoverComponent \<Rightarrow> error + string list" where
  "viewPost_discover index s =
     (case at_index (discoverPosts s) index of
        None \<Rightarrow> Inl TypeError
      | Some post \<Rightarrow> Inr [dp_title post, dp_description post])"

text \<open>Examples: two posts with the given like counts, and a component without posts.\<close>

definition example_discover :: "int \<Rightarrow> int \<Rightarrow> DiscoverComponent" where
  "example_discover m n =
     \<lparr>discoverPosts =
        [\<lparr>dp_title = ''Discover Post 1'', dp_description = ''x'', dp_author = ''User 1'',
          likes = m, dp_tags = [''AI''], dp_image = None\<rparr>,
         \<lparr>dp_title = ''Discover Post 2'', dp_description = ''y'', dp_author = ''User 2'',
          likes = n, dp_tags = [''New''], dp_image = None\<rparr>]\<rparr>"

definition no_discover :: DiscoverComponent where
  "no_discover = \<lparr>discoverPosts = []\<rparr>"

section \<open>CreateComponent\<close>

text \<open>
  Numbers of the carousel are whole numbers or \<open>NaN\<close>; \<open>a % b\<close> is the remainder with
  the sign of \<open>a\<close>, and \<open>NaN\<close> when \<open>b\<close> is 0.
\<close>

datatype number = Num int | NaN

fun plus_number :: "number \<Rightarrow> number \<Rightarrow> number" where
  "plus_number (Num a) (Num b) = Num (a + b)"
| "plus_number _ _ = NaN"

fun minus_number :: "number \<Rightarrow> number \<Rightarrow> number" where
  "minus_number (Num a) (Num b) = Num (a - b)"
| "minus_number _ _ = NaN"

fun rem_number :: "number \<Rightarrow> number \<Rightarrow> number" where
  "rem_number (Num a) (Num b) = (if b = 0 then NaN else Num (sgn a * (\<bar>a\<bar> mod \<bar>b\<bar>)))"
| "rem_number _ _ = NaN"

record PreviewCard =
  pc_title :: string
  pc_description :: string
  pc_caption :: string

record CreateComponent =
  previewCards :: "PreviewCard list"
  currentCardIndex :: number
  selectedPostCount :: number

definition previewCards_length :: "CreateComponent \<Rightarrow> number" where
  "previewCards_length s = Num (int (length (previewCards s)))"

definition nextCard :: "CreateComponent \<Rightarrow> CreateComponent" where
  "nextCard s =
     s\<lparr>currentCardIndex :=
         rem_number (plus_number (currentCardIndex s) (Num 1)) (previewCards_length s)\<rparr>"

definition prevCard :: "CreateComponent \<Rightarrow> CreateComponent" where
  "prevCard s =
     s\<lparr>currentCardIndex :=
         rem_number (plus_number (minus_number (currentCardIndex s) (Num 1)) (previewCards_length s))
           (previewCards_length s)\<rparr>"

text \<open>
  The component as constructed. The titles end in a pictograph outside the code units of
  this model, which is left out here; no operation reads the texts of the cards.
\<close>

definition CreateComponent_init :: CreateComponent where
  "CreateComponent_init =
     \<lparr>previewCards =
        [\<lparr>pc_title = ''Angular 19 Just Dropped '',
          pc_description = ''Explore zoneless change detection and the new signal-based forms API.'',
          pc_caption = ''Check out the new features!''\<rparr>,
         \<lparr>pc_title = ''Mastering TypeScript 6 '',
          pc_description = ''Type inference just got smarter - refactor for cleaner code.'',
          pc_caption = ''TypeScript 6 is amazing!''\<rparr>,
         \<lparr>pc_title = ''RxJS + Signals Hybrid '',
          pc_description = ''Combine signals and observables for ultra-reactive Angular apps.'',
          pc_caption = ''Reactive programming made easier.''\<rparr>],
      currentCardIndex = Num 0,
      selectedPostCount = Num 1\<rparr>"

section \<open>DashboardComponent\<close>

text \<open>
  The document as the component sees it during one handler: the elements its queries
  find, and their geometry. Lengths are real numbers. \<open>Body\<close> is \<open>document.body\<close>.
\<close>

datatype element = Body | Element nat

record rect =
  rect_top :: real
  rect_height :: real

record dom =
  querySelectorAll_nav_item :: "element list"
  querySelector_nav_indicator :: "element option"
  querySelector_nav_container :: "element option"
  getElementById :: "string \<Rightarrow> element option"
  getBoundingClientRect :: "element \<Rightarrow> rect"
  offsetHeight :: "element \<Rightarrow> real"
  offsetTop :: "element \<Rightarrow> real"
  scrollY :: real
  innerHeight :: real

datatype style_value = Text string | Px real

record NavItem =
  name :: string
  target :: string
  icon :: string

definition navItems :: "NavItem list" where
  "navItems =
     [\<lparr>name = ''Home'', target = ''hero'', icon = ''pi-home''\<rparr>,
      \<lparr>name = ''Create'', target = ''create'', icon = ''pi-plus''\<rparr>,
      \<lparr>name = ''History'', target = ''history'', icon = ''pi-history''\<rparr>,
      \<lparr>name = ''Discover'', target = ''discover'', icon = ''pi-compass''\<rparr>,
      \<lparr>name = ''Profile'', target = [], icon = ''pi-user''\<rparr>,
      \<lparr>name = ''Settings'', target = [], icon = ''pi-cog''\<rparr>]"

text \<open>
  The fields of the component, and the two things outside it that its methods write: the
  inline styles of elements (\<open>style\<close>; \<open>None\<close> is a property that is not set) and the
  last position asked of \<open>window.scrollTo\<close>. The cached references \<open>tabs\<close>,
  \<open>indicator\<close> and \<open>navContainer\<close> are \<open>undefined\<close> (\<open>None\<close>) until
  \<open>ngAfterViewInit\<close>, and \<open>indicator\<close> and \<open>navContainer\<close> are \<open>null\<close> (also
  \<open>None\<close>) when the query finds nothing.
\<close>

record DashboardComponent =
  activeIndex :: int
  isLoggedIn :: bool
  showProfile :: bool
  showLogin :: bool
  showSignup :: bool
  tabs :: "element list option"
  indicator :: "element option"
  navContainer :: "element option"
  sectionOffsets :: "(string \<times> real) list"
  isClickScrolling :: bool
  scrollPending :: bool
  style :: "element \<Rightarrow> string \<rightharpoonup> style_value"
  scrollTo :: "real option"

definition DashboardComponent_init ::
  "(element \<Rightarrow> string \<rightharpoonup> style_value) \<Rightarrow> DashboardComponent" where
  "DashboardComponent_init styles =
     \<lparr>activeIndex = 0, isLoggedIn = False,
      showProfile = False, showLogin = False, showSignup = False,
      tabs = None, indicator = None, navContainer = None,
      sectionOffsets = [], isClickScrolling = False, scrollPending = False,
      style = styles, scrollTo = None\<rparr>"

definition setStyle ::
  "element \<Rightarrow> string \<Rightarrow> style_value \<Rightarrow> DashboardComponent \<Rightarrow> DashboardComponent" where
  "setStyle el prop v s = s\<lparr>style := (style s)(el := (style s el)(prop \<mapsto> v))\<rparr>"

definition removeStyle :: "element \<Rightarrow> string \<Rightarrow> DashboardComponent \<Rightarrow> DashboardComponent" where
  "removeStyle el prop s = s\<lparr>style := (style s)(el := (style s el)(prop := None))\<rparr>"

definition calculateSectionOffsets :: "dom \<Rightarrow> DashboardComponent \<Rightarrow> DashboardComponent" where
  "calculateSectionOffsets d s =
     s\<lparr>sectionOffsets :=
         map (\<lambda>item. (target item,
                       (case getElementById d (target item) of
                          None \<Rightarrow> 0
                        | Some section \<Rightarrow> offsetTop d section)))
           (filter (\<lambda>item. target item \<noteq> []) navItems)\<rparr>"

definition colors :: "string list" where
  "colors = [''#e18e1c'', ''#e3911a'', ''#e1921a'', ''#e39519'', ''#e2921a'', ''#e3911a'']"

text \<open>
  \<open>updateIndicatorPosition\<close>: the guard returns when a cached reference is missing or
  there is no tab; after it, \<open>this.tabs[this.activeIndex]\<close> is \<open>undefined\<close> when
  \<open>activeIndex\<close> is outside the tabs, and calling \<open>getBoundingClientRect\<close> on it throws.
\<close>

definition updateIndicatorPosition :: "dom \<Rightarrow> DashboardComponent \<Rightarrow> DashboardComponent outcome" where
  "updateIndicatorPosition d s =
     (case (indicator s, tabs s, navContainer s) of
        (Some ind, Some ts, Some container) \<Rightarrow>
          if ts = [] then Returns s
          else (case at_index ts (activeIndex s) of
                  None \<Rightarrow> Throws TypeError s
                | Some activeTab \<Rightarrow>
                    (let tabRect = getBoundingClientRect d activeTab;
                         containerRect = getBoundingClientRect d container;
                         centerY = rect_top tabRect - rect_top containerRect + rect_height tabRect / 2;
                         indicatorHeight = offsetHeight d ind;
                         finalTop = centerY - indicatorHeight / 2
                     in Returns
                          (setStyle ind ''background''
                             (Text (colors ! (nat (activeIndex s) mod length colors)))
                             (setStyle ind ''top'' (Px finalTop)
                                (setStyle ind ''transition''
                                   (Text ''top 0.35s cubic-bezier(0.23, 1, 0.32, 1), background 0.3s ease'')
                                   s)))))
      | _ \<Rightarrow> Returns s)"

definition setActive :: "dom \<Rightarrow> int \<Rightarrow> DashboardComponent \<Rightarrow> DashboardComponent outcome" where
  "setActive d index s = updateIndicatorPosition d (s\<lparr>activeIndex := index\<rparr>)"

definition isActive :: "int \<Rightarrow> DashboardComponent \<Rightarrow> bool" where
  "isActive index s = (activeIndex s = index)"

definition toggleProfile :: "DashboardComponent \<Rightarrow> DashboardComponent" where
  "toggleProfile s = s\<lparr>showProfile := \<not> showProfile s\<rparr>"

definition closeProfile :: "DashboardComponent \<Rightarrow> DashboardComponent" where
  "closeProfile s = s\<lparr>showProfile := False\<rparr>"

definition toggleLogin :: "DashboardComponent \<Rightarrow> DashboardComponent" where
  "toggleLogin s = s\<lparr>showLogin := \<not> showLogin s\<rparr>"

definition toggleSignup :: "DashboardComponent \<Rightarrow> DashboardComponent" where
  "toggleSignup s = s\<lparr>showSignup := \<not> showSignup s\<rparr>"

text \<open>
  \<open>updateScrollLock\<close>. When logged in it also starts a timer of 300 ms, whose callback is
  \<open>recalcTimeout\<close> below.
\<close>

definition updateScrollLock :: "DashboardComponent \<Rightarrow> DashboardComponent" where
  "updateScrollLock s =
     (if \<not> isLoggedIn s then setStyle Body ''overflow'' (Text ''hidden'') s
      else removeStyle Body ''overflow'' s)"

definition recalcTimeout :: "dom \<Rightarrow> DashboardComponent \<Rightarrow> DashboardComponent outcome" where
  "recalcTimeout d s = updateIndicatorPosition d (calculateSectionOffsets d s)"

definition closeLogin :: "DashboardComponent \<Rightarrow> DashboardComponent" where
  "closeLogin s = updateScrollLock (s\<lparr>showLogin := False, isLoggedIn := True\<rparr>)"

definition closeSignup :: "DashboardComponent \<Rightarrow> DashboardComponent" where
  "closeSignup s = updateScrollLock (s\<lparr>showSignup := False, isLoggedIn := True\<rparr>)"

definition handleLogout :: "DashboardComponent \<Rightarrow> DashboardComponent" where
  "handleLogout s =
     (updateScrollLock (closeProfile (s\<lparr>isLoggedIn := False\<rparr>)))\<lparr>scrollTo := Some 0\<rparr>"

text \<open>
  \<open>ngAfterViewInit\<close>; the timer of 200 ms it starts calls \<open>calculateSectionOffsets\<close>.
\<close>

definition ngAfterViewInit :: "dom \<Rightarrow> DashboardComponent \<Rightarrow> DashboardComponent outcome" where
  "ngAfterViewInit d s =
     (case updateIndicatorPosition d
             (s\<lparr>tabs := Some (querySelectorAll_nav_item d),
                indicator := querySelector_nav_indicator d,
                navContainer := querySelector_nav_container d\<rparr>) of
        Throws e s' \<Rightarrow> Throws e s'
      | Returns s' \<Rightarrow> Returns (updateScrollLock s'))"

text \<open>
  \<open>navigateToSection\<close>: \<open>clicked.name\<close> throws when the index is outside \<open>navItems\<close>.
  The timer of 600 ms it starts is \<open>clickScrollTimeout\<close>.
\<close>

definition navigateToSection ::
  "dom \<Rightarrow> string \<Rightarrow> int \<Rightarrow> DashboardComponent \<Rightarrow> DashboardComponent outcome" where
  "navigateToSection d sectionId index s =
     (case at_index navItems index of
        None \<Rightarrow> Throws TypeError s
      | Some clicked \<Rightarrow>
          if name clicked = ''Profile'' then Returns (toggleProfile s)
          else (case setActive d index s of
                  Throws e s' \<Rightarrow> Throws e s'
                | Returns s' \<Rightarrow>
                    if sectionId = [] then Returns s'
                    else (case getElementById d sectionId of
                            None \<Rightarrow> Returns s'
                          | Some section \<Rightarrow>
                              Returns (s'\<lparr>isClickScrolling := True,
                                          scrollTo := Some (rect_top (getBoundingClientRect d section)
                                                             + scrollY d + (- 10))\<rparr>))))"

definition clickScrollTimeout :: "DashboardComponent \<Rightarrow> DashboardComponent" where
  "clickScrollTimeout s = s\<lparr>isClickScrolling := False\<rparr>"

text \<open>
  The loop of \<open>handleScroll\<close>, from the last section down; the first argument is the
  number of sections still to look at, so the section looked at is \<open>i\<close> in the second
  equation.
\<close>

fun handleScroll_loop :: "dom \<Rightarrow> real \<Rightarrow> nat \<Rightarrow> DashboardComponent \<Rightarrow> DashboardComponent outcome" where
  "handleScroll_loop d y 0 s = Returns s"
| "handleScroll_loop d y (Suc i) s =
     (if y \<ge> snd (sectionOffsets s ! i)
      then (if activeIndex s \<noteq> int i
            then updateIndicatorPosition d (s\<lparr>activeIndex := int i\<rparr>)
            else Returns s)
      else handleScroll_loop d y i s)"

definition handleScroll :: "dom \<Rightarrow> DashboardComponent \<Rightarrow> DashboardComponent outcome" where
  "handleScroll d s =
     handleScroll_loop d (scrollY d + innerHeight d / 3) (length (sectionOffsets s)) s"

text \<open>
  \<open>onWindowScroll\<close> asks for an animation frame; \<open>animationFrame\<close> is the callback it
  registers.
\<close>

definition onWindowScroll :: "DashboardComponent \<Rightarrow> DashboardComponent" where
  "onWindowScroll s =
     (if isClickScrolling s \<or> \<not> isLoggedIn s then s
      else if scrollPending s then s
      else s\<lparr>scrollPending := True\<rparr>)"

definition animationFrame :: "dom \<Rightarrow> DashboardComponent \<Rightarrow> DashboardComponent outcome" where
  "animationFrame d s =
     (case handleScroll d s of
        Throws e s' \<Rightarrow> Throws e s'
      | Returns s' \<Rightarrow> Returns (s'\<lparr>scrollPending := False\<rparr>))"

definition onResize :: "dom \<Rightarrow> DashboardComponent \<Rightarrow> DashboardComponent" where
  "onResize d s = calculateSectionOffsets d s"

text \<open>
  \<open>onLeave\<close>: \<open>closest\<close> is the element that \<open>closest('.nav-container')\<close> finds from the
  event's target, if any.
\<close>

definition onLeave :: "element option \<Rightarrow> DashboardComponent \<Rightarrow> DashboardComponent" where
  "onLeave closest s =
     (case closest of None \<Rightarrow> s | Some container \<Rightarrow> removeStyle container ''--gel-y'' s)"

text \<open>
  Everything that can run on the component after \<open>ngAfterViewInit\<close>: its public methods,
  its two window listeners, and the callbacks of its timers and animation frames. A run
  is a list of such events, each with the document as it is at that moment; after a
  handler that throws, the component stays as the handler left it.
\<close>

datatype event =
    NavigateToSection string int
  | SetActive int
  | OnWindowScroll
  | AnimationFrame
  | OnResize
  | ToggleProfile
  | CloseProfile
  | ToggleLogin
  | CloseLogin
  | ToggleSignup
  | CloseSignup
  | HandleLogout
  | OnLeave "element option"
  | OffsetsTimeout
  | RecalcTimeout
  | ClickScrollTimeout

fun handle :: "dom \<Rightarrow> event \<Rightarrow> DashboardComponent \<Rightarrow> DashboardComponent outcome" where
  "handle d (NavigateToSection sectionId index) s = navigateToSection d sectionId index s"
| "handle d (SetActive index) s = setActive d index s"
| "handle d OnWindowScroll s = Returns (onWindowScroll s)"
| "handle d AnimationFrame s = animationFrame d s"
| "handle d OnResize s = Returns (onResize d s)"
| "handle d ToggleProfile s = Returns (toggleProfile s)"
| "handle d CloseProfile s = Returns (closeProfile s)"
| "handle d ToggleLogin s = Returns (toggleLogin s)"
| "handle d CloseLogin s = Returns (closeLogin s)"
| "handle d ToggleSignup s = Returns (toggleSignup s)"
| "handle d CloseSignup s = Returns (closeSignup s)"
| "handle d HandleLogout s = Returns (handleLogout s)"
| "handle d (OnLeave closest) s = Returns (onLeave closest s)"
| "handle d OffsetsTimeout s = Returns (calculateSectionOffsets d s)"
| "handle d RecalcTimeout s = recalcTimeout d s"
| "handle d ClickScrollTimeout s = Returns (clickScrollTimeout s)"

fun run :: "(dom \<times> event) list \<Rightarrow> DashboardComponent \<Rightarrow> DashboardComponent" where
  "run [] s = s"
| "run ((d, ev) # rest) s = run rest (state_of (handle d ev s))"

definition scrollLocked :: "DashboardComponent \<Rightarrow> bool" where
  "scrollLocked s = (style s Body ''overflow'' = Some (Text ''hidden''))"

definition modalOpen :: "DashboardComponent \<Rightarrow> bool" where
  "modalOpen s = (showLogin s \<or> showSignup s \<or> showProfile s)"

text \<open>A document in which none of the component's queries finds an element.\<close>

definition empty_dom :: dom where
  "empty_dom =
     \<lparr>querySelectorAll_nav_item = [], querySelector_nav_indicator = None,
      querySelector_nav_container = None, getElementById = (\<lambda>_. None),
      getBoundingClientRect = (\<lambda>_. \<lparr>rect_top = 0, rect_height = 0\<rparr>),
      offsetHeight = (\<lambda>_. 0), offsetTop = (\<lambda>_. 0), scrollY = 0, innerHeight = 0\<rparr>"

text \<open>No inline style on any element.\<close>

definition no_styles :: "element \<Rightarrow> string \<rightharpoonup> style_value" where
  "no_styles = (\<lambda>_. Map.empty)"

text \<open>
  A document with an indicator, three tabs, a nav container and no sections, and the
  component after \<open>ngAfterViewInit\<close> in it.
\<close>

definition example_dom :: dom where
  "example_dom =
     \<lparr>querySelectorAll_nav_item = [Element 1, Element 2, Element 3],
      querySelector_nav_indicator = Some (Element 0),
      querySelector_nav_container = Some (Element 4), getElementById = (\<lambda>_. None),
      getBoundingClientRect = (\<lambda>_. \<lparr>rect_top = 0, rect_height = 0\<rparr>),
      offsetHeight = (\<lambda>_. 0), offsetTop = (\<lambda>_. 0), scrollY = 0, innerHeight = 0\<rparr>"

definition example_dashboard :: DashboardComponent where
  "example_dashboard = state_of (ngAfterViewInit example_dom (DashboardComponent_init no_styles))"

subsection \<open>LoginComponent and SignupComponent\<close>

text \<open>
  \<open>onLogin\<close> and \<open>onSignup\<close> write one line to the console and nothing else; the result
  is the component afterwards and the values logged.
\<close>

record LoginComponent =
  login_email :: string
  login_password :: string

record SignupComponent =
  signup_name :: string
  signup_email :: string
  signup_password :: string

definition onLogin :: "LoginComponent \<Rightarrow> LoginComponent \<times> string list" where
  "onLogin l = (l, [''Login attempted:'', login_email l, login_password l])"

definition onSignup :: "SignupComponent \<Rightarrow> SignupComponent \<times> string list" where
  "onSignup g = (g, [''Signup attempted:'', signup_name g, signup_email g, signup_password g])"

section \<open>Strings and arrays\<close>

lemma startsWith_prefix: "startsWith s q = prefix q s"
  by (induction s q rule: startsWith.induct) auto

lemma includesStr_sublist: "includesStr s q = sublist q s"
proof (induction s)
  case Nil
  then show ?case by simp
next
  case (Cons c cs)
  then show ?case by (simp add: startsWith_prefix sublist_Cons_right)
qed

lemma includesStr_iff: "includesStr s q = (\<exists>pre suf. s = pre @ q @ suf)"
  by (simp add: includesStr_sublist sublist_def)

lemma sublist_trim: "sublist (trim s) s"
proof -
  have "suffix (dropWhile isWhiteSpace s) s" by (rule suffix_dropWhile)
  moreover have "prefix (trim s) (dropWhile isWhiteSpace s)"
  proof -
    have "suffix (dropWhile isWhiteSpace (rev (dropWhile isWhiteSpace s)))
            (rev (dropWhile isWhiteSpace s))"
      by (rule suffix_dropWhile)
    then show ?thesis
      by (simp add: trim_def suffix_to_prefix)
  qed
  ultimately show ?thesis
    using sublist_altdef' by blast
qed

lemma sublist_join: "x \<in> set xs \<Longrightarrow> sublist x (join sep xs)"
proof (induction sep xs rule: join.induct)
  case (1 sep)
  then show ?case by simp
next
  case (2 sep x')
  then show ?case by simp
next
  case (3 sep x' y ys)
  show ?case
  proof (cases "x = x'")
    case True
    then show ?thesis by simp
  next
    case False
    then have "sublist x (join sep (y # ys))" using 3 by simp
    then obtain pre suf where "join sep (y # ys) = pre @ x @ suf" by (auto simp: sublist_def)
    then have "join sep (x' # y # ys) = (x' @ sep @ pre) @ x @ suf" by simp
    then show ?thesis unfolding sublist_def by blast
  qed
qed

lemma toLowerCase_sublist: "sublist a b \<Longrightarrow> sublist (toLowerCase a) (toLowerCase b)"
  unfolding toLowerCase_def by (rule map_mono_sublist)

lemma at_index_Some: "0 \<le> i \<Longrightarrow> i < int (length xs) \<Longrightarrow> at_index xs i = Some (xs ! nat i)"
  by (simp add: at_index_def)

lemma indexOf_bounds: "- 1 \<le> indexOf xs x \<and> indexOf xs x < int (length xs)"
  by (induction xs) (auto simp: Let_def)

lemma indexOf_member:
  "x \<in> set xs \<Longrightarrow> 0 \<le> indexOf xs x \<and> xs ! nat (indexOf xs x) = x"
proof (induction xs)
  case Nil
  then show ?case by simp
next
  case (Cons y ys)
  show ?case
  proof (cases "y = x")
    case True
    then show ?thesis by simp
  next
    case False
    then have "x \<in> set ys" using Cons.prems by simp
    then have ih: "0 \<le> indexOf ys x" "ys ! nat (indexOf ys x) = x" using Cons.IH by simp_all
    then have "nat (indexOf ys x + 1) = Suc (nat (indexOf ys x))" by simp
    then show ?thesis using False ih by (simp add: Let_def)
  qed
qed

lemma indexOf_absent: "x \<notin> set xs \<Longrightarrow> indexOf xs x = - 1"
  by (induction xs) (auto simp: Let_def)

lemma splice1_in_range:
  "k < length xs \<Longrightarrow> splice1 (int k) xs = take k xs @ drop (Suc k) xs"
  by (simp add: splice1_def Let_def min_def nat_add_distrib)

text \<open>
  \<open>splice(-1, 1)\<close>, what \<open>indexOf\<close> leads to for a value that is not in the array, removes
  the last element.
\<close>

lemma splice1_minus_one: "splice1 (- 1) xs = butlast xs"
proof (cases "xs = []")
  case True
  then show ?thesis by (simp add: splice1_def)
next
  case False
  then have "nat (int (length xs) - 1) = length xs - 1" by simp
  then show ?thesis using False
    by (simp add: splice1_def Let_def max_def butlast_conv_take)
qed

lemma distinct_take_drop:
  assumes "distinct xs" and "a \<le> b"
  shows "distinct (take a xs @ drop b xs)"
proof -
  have "set (take a xs) \<inter> set (drop b xs) = {}"
    using assms by (rule set_take_disj_set_drop_if_distinct)
  then show ?thesis using assms(1) by simp
qed

lemma distinct_splice1:
  assumes "distinct xs"
  shows "distinct (splice1 start xs)"
proof -
  define len where "len = int (length xs)"
  define actualStart where "actualStart = (if start < 0 then max (len + start) 0 else min start len)"
  define deleteCount where "deleteCount = min 1 (len - actualStart)"
  have "0 \<le> len" by (simp add: len_def)
  then have "actualStart \<le> len" by (auto simp: actualStart_def)
  then have "0 \<le> deleteCount" by (simp add: deleteCount_def)
  then have "nat actualStart \<le> nat (actualStart + deleteCount)" by simp
  then have "distinct (take (nat actualStart) xs @ drop (nat (actualStart + deleteCount)) xs)"
    using assms by (intro distinct_take_drop)
  moreover have "splice1 start xs
      = take (nat actualStart) xs @ drop (nat (actualStart + deleteCount)) xs"
    unfolding splice1_def Let_def len_def actualStart_def deleteCount_def by (rule refl)
  ultimately show ?thesis by simp
qed

text \<open>
  Removing position \<open>k\<close> from a list without repetitions removes from its filtered
  sub-list the one position that holds the same element.
\<close>

lemma filter_remove_nth:
  assumes d: "distinct xs" and k: "k < length xs"
    and i: "i < length (filter P xs)" and same: "filter P xs ! i = xs ! k"
  shows "filter P (take k xs @ drop (Suc k) xs) = take i (filter P xs) @ drop (Suc i) (filter P xs)"
proof -
  let ?x = "xs ! k"
  let ?A = "filter P (take k xs)"
  let ?B = "filter P (drop (Suc k) xs)"
  have split: "xs = take k xs @ ?x # drop (Suc k) xs"
    using k by (rule id_take_nth_drop)
  have "?x \<in> set (filter P xs)" using i same by (metis nth_mem)
  then have px: "P ?x" by simp
  have "filter P xs = filter P (take k xs @ ?x # drop (Suc k) xs)"
    using split by (rule arg_cong)
  then have fs: "filter P xs = ?A @ ?x # ?B" using px by simp
  have dist: "distinct (filter P xs)" using d by simp
  have at_A: "filter P xs ! length ?A = ?x" by (subst fs) simp
  have len_A: "length ?A < length (filter P xs)" by (subst fs) simp
  have "filter P xs ! i = filter P xs ! length ?A"
    using same at_A by simp
  then have "i = length ?A"
    using nth_eq_iff_index_eq [OF dist i len_A] by simp
  then have "take i (filter P xs) = ?A" "drop (Suc i) (filter P xs) = ?B"
    by (subst fs, simp)+
  then show ?thesis by simp
qed

lemma length_remove_nth:
  "k < length xs \<Longrightarrow> length (take k xs @ drop (Suc k) xs) = length xs - 1"
  by auto

lemma nth_not_in_rest:
  assumes "distinct xs" and "k < length xs"
  shows "xs ! k \<notin> set (take k xs @ drop (Suc k) xs)"
proof -
  have "xs = take k xs @ xs ! k # drop (Suc k) xs"
    using assms(2) by (rule id_take_nth_drop)
  then have "distinct (take k xs @ xs ! k # drop (Suc k) xs)"
    using assms(1) by simp
  then show ?thesis by simp
qed

section \<open>Properties of HistoryComponent\<close>

subsection \<open>Filtering\<close>

lemma applyFilter_matches:
  "filteredHistory (applyFilter s)
     = filter (\<lambda>post. matchesQuery (searchQuery s) (heap s post)) (history s)"
  by (simp add: applyFilter_def matchesQuery_def Let_def)

lemma applyFilter_idem: "applyFilter (applyFilter s) = applyFilter s"
  by (simp add: applyFilter_def Let_def)

text \<open>
  A field that contains the term puts the trimmed term into the joined text: the trimmed
  term is a part of the term, and the field is a part of the joined text.
\<close>

lemma field_match_joined:
  assumes "someFieldContains term post"
  shows "includesStr (toLowerCase (join '' '' (searchFields post))) (trim (toLowerCase term))"
proof -
  from assms obtain field where f: "field \<in> set (searchFields post)"
    and c: "sublist (toLowerCase term) (toLowerCase field)"
    by (auto simp: someFieldContains_def list_ex_iff includesStr_sublist)
  have "sublist (trim (toLowerCase term)) (toLowerCase term)" by (rule sublist_trim)
  also note c
  also have "sublist (toLowerCase field) (toLowerCase (join '' '' (searchFields post)))"
    using f by (intro toLowerCase_sublist sublist_join)
  finally show ?thesis by (simp add: includesStr_sublist)
qed

text \<open>
  C1, as amended. Let \<open>q\<close> be the search term in lower case and then trimmed. When \<open>q\<close> is
  empty, as it is for the empty term, \<open>applyFilter\<close> makes \<open>filteredHistory\<close> the full
  history list. Otherwise it keeps, in order, exactly the posts for which the
  text made of title, description, caption (or the empty string) and the tags, joined by
  single spaces and put in lower case, contains \<open>q\<close>. Every post one of whose fields
  contains the term, ignoring case, is kept. The history list itself is not changed.
\<close>

theorem applyFilter_joined_text:
  "filteredHistory (applyFilter s)
     = (if trim (toLowerCase (searchQuery s)) = [] then history s
        else filter (\<lambda>post. \<exists>pre suf. toLowerCase (join '' '' (searchFields (heap s post)))
                                       = pre @ trim (toLowerCase (searchQuery s)) @ suf)
               (history s))
   \<and> (\<forall>post \<in> set (history s). someFieldContains (searchQuery s) (heap s post)
          \<longrightarrow> post \<in> set (filteredHistory (applyFilter s)))
   \<and> (searchQuery s = [] \<longrightarrow> filteredHistory (applyFilter s) = history s)
   \<and> history (applyFilter s) = history s"
proof -
  have exact: "filteredHistory (applyFilter s)
     = (if trim (toLowerCase (searchQuery s)) = [] then history s
        else filter (\<lambda>post. \<exists>pre suf. toLowerCase (join '' '' (searchFields (heap s post)))
                                       = pre @ trim (toLowerCase (searchQuery s)) @ suf)
               (history s))"
    by (simp add: applyFilter_def Let_def includesStr_iff)
  have fields: "post \<in> set (filteredHistory (applyFilter s))"
    if "post \<in> set (history s)" and "someFieldContains (searchQuery s) (heap s post)" for post
    using that field_match_joined [of "searchQuery s" "heap s post"]
    by (simp add: applyFilter_def Let_def)
  have empty: "searchQuery s = [] \<longrightarrow> filteredHistory (applyFilter s) = history s"
    by (simp add: applyFilter_def Let_def toLowerCase_def trim_def)
  have same: "history (applyFilter s) = history s"
    by (simp add: applyFilter_def Let_def)
  show ?thesis using exact fields empty same by blast
qed

text \<open>
  The example history under the query \<open>A\<close>: the title \<open>a\<close> of its first post contains the
  term, and the post is kept; under the empty query both posts are kept.
\<close>

theorem applyFilter_joined_text_witness:
  "0 \<in> set (history (example_history ''A''))
   \<and> someFieldContains (searchQuery (example_history ''A'')) (heap (example_history ''A'') 0)
   \<and> 0 \<in> set (filteredHistory (applyFilter (example_history ''A'')))
   \<and> trim (toLowerCase (searchQuery (example_history ''A''))) = ''a''
   \<and> searchQuery (example_history []) = []
   \<and> filteredHistory (applyFilter (example_history [])) = [0, 1]"
proof -
  have member: "0 \<in> set (history (example_history ''A''))"
    by (simp add: example_history_def)
  have field: "someFieldContains (searchQuery (example_history ''A'')) (heap (example_history ''A'') 0)"
    by code_simp
  have q: "trim (toLowerCase (searchQuery (example_history ''A''))) = ''a''"
    by code_simp
  have none: "searchQuery (example_history []) = []"
    by (simp add: example_history_def)
  have all: "history (example_history []) = [0, 1]"
    by (simp add: example_history_def)
  have kept: "0 \<in> set (filteredHistory (applyFilter (example_history ''A'')))"
    using applyFilter_joined_text [of "example_history ''A''"] member field by blast
  have "filteredHistory (applyFilter (example_history [])) = history (example_history [])"
    using applyFilter_joined_text [of "example_history []"] none by blast
  then have full: "filteredHistory (applyFilter (example_history [])) = [0, 1]"
    using all by simp
  show ?thesis
    using member field kept q none full by blast
qed

lemma example_filter_a_b: "filteredHistory (applyFilter (example_history ''a b'')) = [0, 1]"
  by (simp add: applyFilter_def example_history_def example_post_def searchFields_def
      toLowerCase_def toLowerCase_char_def trim_def isWhiteSpace_def Let_def)

lemma example_specFilter_a_b: "specFilter ''a b'' (example_history ''a b'') = []"
  by (simp add: specFilter_def someFieldContains_def example_history_def example_post_def
      searchFields_def toLowerCase_def toLowerCase_char_def)

text \<open>
  Counterexample to C1 as stated: for the posts with title \<open>a\<close> and description \<open>b\<close> and
  the term \<open>a b\<close>, no field contains the term, yet \<open>applyFilter\<close> keeps both posts, because
  the term occurs in the joined text \<open>a b\<close> across the joining space.
\<close>

theorem applyFilter_fields_counterexample:
  "''a b'' \<noteq> []
   \<and> filteredHistory (applyFilter (example_history ''a b'')) = [0, 1]
   \<and> specFilter ''a b'' (example_history ''a b'') = []"
  by (simp add: example_filter_a_b example_specFilter_a_b)

subsection \<open>Loading\<close>

lemma length_getPlaceholderHistory: "length (getPlaceholderHistory now) = 10"
  by (simp add: getPlaceholderHistory_def)

lemma allocate_refs:
  "fst (allocate posts s) = [fresh s ..< fresh s + length posts]"
  by (simp add: allocate_def)

lemma allocate_heap:
  "map (heap (snd (allocate posts s))) (fst (allocate posts s)) = posts"
  by (rule nth_equalityI) (simp_all add: allocate_def)

lemma loadHistory_fallback:
  assumes "localStorage s ''postHistory'' = None
           \<or> (\<exists>stored. localStorage s ''postHistory'' = Some stored \<and> JSON_parse stored = None)"
  shows "history (loadHistory JSON_parse now s) = fst (allocate (getPlaceholderHistory now) s)
       \<and> heap (loadHistory JSON_parse now s) = heap (snd (allocate (getPlaceholderHistory now) s))"
proof -
  let ?P = "getPlaceholderHistory now"
  have posts: "(case localStorage s ''postHistory'' of
                  None \<Rightarrow> ?P
                | Some stored \<Rightarrow>
                    if stored = [] then ?P
                    else (case JSON_parse stored of None \<Rightarrow> ?P | Some parsed \<Rightarrow> parsed)) = ?P"
    using assms by (auto split: option.split)
  show ?thesis
    unfolding loadHistory_def posts by (simp add: case_prod_beta Let_def)
qed

lemma loadHistory_distinct: "distinct (history (loadHistory JSON_parse now s))"
  by (simp add: loadHistory_def Let_def allocate_def split: prod.split)

text \<open>
  C2. When local storage has no \<open>postHistory\<close> key, or holds under it a text on which
  \<open>JSON.parse\<close> throws, initialising the component gives a history of exactly ten posts,
  whose records are those of \<open>getPlaceholderHistory\<close>, and the filtered view shows all of
  them.
\<close>

theorem placeholder_fallback:
  assumes "localStorage s ''postHistory'' = None
           \<or> (\<exists>stored. localStorage s ''postHistory'' = Some stored \<and> JSON_parse stored = None)"
  shows "length (history (ngOnInit JSON_parse now s)) = 10
       \<and> map (heap (ngOnInit JSON_parse now s)) (history (ngOnInit JSON_parse now s))
           = getPlaceholderHistory now
       \<and> filteredHistory (ngOnInit JSON_parse now s) = history (ngOnInit JSON_parse now s)
       \<and> history (ngOnInit JSON_parse now s) = history (loadHistory JSON_parse now s)"
proof -
  let ?posts = "getPlaceholderHistory now"
  have load: "history (loadHistory JSON_parse now s) = fst (allocate ?posts s)"
    "heap (loadHistory JSON_parse now s) = heap (snd (allocate ?posts s))"
    using loadHistory_fallback [OF assms] by simp_all
  have init: "history (ngOnInit JSON_parse now s) = history (loadHistory JSON_parse now s)"
    "heap (ngOnInit JSON_parse now s) = heap (loadHistory JSON_parse now s)"
    "filteredHistory (ngOnInit JSON_parse now s) = history (loadHistory JSON_parse now s)"
    by (simp_all add: ngOnInit_def Let_def)
  have "length (fst (allocate ?posts s)) = 10"
    by (simp add: allocate_refs length_getPlaceholderHistory)
  moreover have "map (heap (snd (allocate ?posts s))) (fst (allocate ?posts s)) = ?posts"
    by (rule allocate_heap)
  ultimately show ?thesis unfolding init load by simp
qed

text \<open>Both cases: empty local storage, and the stored text \<open>not json\<close>.\<close>

theorem placeholder_fallback_witness:
  "localStorage (HistoryComponent_init Map.empty) ''postHistory'' = None
   \<and> length (history (ngOnInit parse_only_empty_array ''2025-01-01T00:00:00.000Z''
                        (HistoryComponent_init Map.empty))) = 10
   \<and> localStorage (HistoryComponent_init [''postHistory'' \<mapsto> ''not json'']) ''postHistory''
        = Some ''not json''
   \<and> parse_only_empty_array ''not json'' = None
   \<and> length (history (ngOnInit parse_only_empty_array ''2025-01-01T00:00:00.000Z''
                        (HistoryComponent_init [''postHistory'' \<mapsto> ''not json'']))) = 10"
proof -
  have absent: "localStorage (HistoryComponent_init Map.empty) ''postHistory'' = None"
    by (simp add: HistoryComponent_init_def)
  have stored: "localStorage (HistoryComponent_init [''postHistory'' \<mapsto> ''not json'']) ''postHistory''
        = Some ''not json''"
    by (simp add: HistoryComponent_init_def)
  have invalid: "parse_only_empty_array ''not json'' = None"
    by (simp add: parse_only_empty_array_def)
  show ?thesis
    using absent stored invalid
      placeholder_fallback
          [where s = "HistoryComponent_init Map.empty" and JSON_parse = parse_only_empty_array
             and now = "''2025-01-01T00:00:00.000Z''"]
      placeholder_fallback
          [where s = "HistoryComponent_init [''postHistory'' \<mapsto> ''not json'']"
             and JSON_parse = parse_only_empty_array and now = "''2025-01-01T00:00:00.000Z''"]
    by blast
qed

subsection \<open>What the component keeps true\<close>

text \<open>
  In every state reached from \<open>ngOnInit\<close> the posts of the history are pairwise different
  objects and the filtered view shows only posts of the history.
\<close>

lemma ngOnInit_keeps:
  "distinct (history (ngOnInit JSON_parse now s))
   \<and> set (filteredHistory (ngOnInit JSON_parse now s)) \<subseteq> set (history (ngOnInit JSON_parse now s))"
  using loadHistory_distinct [of JSON_parse now s] by (simp add: ngOnInit_def Let_def)

lemma applyFilter_keeps:
  "distinct (history s) \<Longrightarrow>
     distinct (history (applyFilter s)) \<and> set (filteredHistory (applyFilter s)) \<subseteq> set (history (applyFilter s))"
  by (simp add: applyFilter_def Let_def)

lemma deletePost_keeps:
  assumes "distinct (history s)" and "set (filteredHistory s) \<subseteq> set (history s)"
  shows "distinct (history (state_of (deletePost confirm stringify index s)))
       \<and> set (filteredHistory (state_of (deletePost confirm stringify index s)))
           \<subseteq> set (history (state_of (deletePost confirm stringify index s)))"
proof (cases "at_index (filteredHistory s) index")
  case None
  then show ?thesis using assms by (simp add: deletePost_def)
next
  case (Some post)
  let ?msg = "''Delete '' @ [CHR 0x22] @ title (heap s post) @ [CHR 0x22] @ ''?''"
  show ?thesis
  proof (cases "confirm ?msg")
    case False
    then show ?thesis using Some assms by (simp add: deletePost_def)
  next
    case True
    let ?h = "splice1 (indexOf (history s) post) (history s)"
    let ?s1 = "s\<lparr>history := ?h,
                 localStorage := (localStorage s)(''postHistory'' \<mapsto> stringify (map (heap s) ?h))\<rparr>"
    have "deletePost confirm stringify index s = Returns (applyFilter ?s1)"
      using Some True by (simp add: deletePost_def Let_def)
    moreover have "distinct (history ?s1)"
      using assms(1) by (simp add: distinct_splice1)
    ultimately show ?thesis
      using applyFilter_keeps [of ?s1] by simp
  qed
qed

lemma handle_history_keeps:
  assumes "distinct (history s)" and "set (filteredHistory s) \<subseteq> set (history s)"
  shows "distinct (history (handle_history stringify ev s))
       \<and> set (filteredHistory (handle_history stringify ev s))
           \<subseteq> set (history (handle_history stringify ev s))"
proof (cases ev)
  case (WriteSearchQuery q)
  then show ?thesis using assms by simp
next
  case ApplyFilter
  then show ?thesis using applyFilter_keeps [OF assms(1)] by simp
next
  case (ViewPost index)
  then show ?thesis using assms by simp
next
  case (DeletePost index answer)
  then show ?thesis using deletePost_keeps [OF assms] by simp
qed

lemma run_history_keeps:
  "distinct (history s) \<Longrightarrow> set (filteredHistory s) \<subseteq> set (history s) \<Longrightarrow>
     distinct (history (run_history stringify events s))
     \<and> set (filteredHistory (run_history stringify events s))
         \<subseteq> set (history (run_history stringify events s))"
proof (induction events arbitrary: s)
  case Nil
  then show ?case by simp
next
  case (Cons ev rest)
  have "distinct (history (handle_history stringify ev s))
       \<and> set (filteredHistory (handle_history stringify ev s))
           \<subseteq> set (history (handle_history stringify ev s))"
    using Cons.prems by (rule handle_history_keeps)
  then show ?case using Cons.IH by simp
qed

text \<open>
  The filtered view is the one \<open>applyFilter\<close> computes for the current query after
  \<open>ngOnInit\<close> on the constructed component, after \<open>applyFilter\<close> and after \<open>deletePost\<close>;
  a write to \<open>searchQuery\<close> alone leaves the view of the query before.
\<close>

lemma ngOnInit_in_sync:
  assumes "searchQuery s = []"
  shows "distinct (history (ngOnInit JSON_parse now s))
       \<and> filteredHistory (ngOnInit JSON_parse now s)
           = filteredHistory (applyFilter (ngOnInit JSON_parse now s))"
proof -
  have q: "searchQuery (ngOnInit JSON_parse now s) = []"
    using assms by (simp add: ngOnInit_def loadHistory_def allocate_def Let_def split: prod.split)
  have "distinct (history (ngOnInit JSON_parse now s))"
    using loadHistory_distinct [of JSON_parse now s] by (simp add: ngOnInit_def Let_def)
  moreover have "filteredHistory (ngOnInit JSON_parse now s) = history (ngOnInit JSON_parse now s)"
    by (simp add: ngOnInit_def Let_def)
  moreover have "filteredHistory (applyFilter (ngOnInit JSON_parse now s))
       = history (ngOnInit JSON_parse now s)"
    using q by (simp add: applyFilter_def Let_def toLowerCase_def trim_def)
  ultimately show ?thesis by simp
qed

lemma applyFilter_in_sync:
  "distinct (history s) \<Longrightarrow>
     distinct (history (applyFilter s))
     \<and> filteredHistory (applyFilter s) = filteredHistory (applyFilter (applyFilter s))"
  by (simp add: applyFilter_idem) (simp add: applyFilter_def Let_def)

lemma deletePost_in_sync:
  assumes "distinct (history s)" and "filteredHistory s = filteredHistory (applyFilter s)"
  shows "distinct (history (state_of (deletePost confirm stringify index s)))
       \<and> filteredHistory (state_of (deletePost confirm stringify index s))
           = filteredHistory (applyFilter (state_of (deletePost confirm stringify index s)))"
  using assms
  by (auto simp: deletePost_def Let_def applyFilter_idem distinct_splice1
        split: option.split)
     (simp_all add: applyFilter_def Let_def distinct_splice1)

subsection \<open>Deleting\<close>

text \<open>
  For an index within the filtered view and a confirmed dialog, \<open>indexOf\<close> finds the post
  at a position \<open>k\<close> of the history, \<open>splice\<close> removes that position, and \<open>applyFilter\<close>
  computes the view again from what is left.
\<close>

lemma deletePost_removes:
  assumes distinct_posts: "distinct (history s)"
    and shown: "set (filteredHistory s) \<subseteq> set (history s)"
    and lower: "0 \<le> index" and upper: "index < int (length (filteredHistory s))"
    and yes: "confirm (''Delete '' @ [CHR 0x22] @ title (heap s (filteredHistory s ! nat index))
                        @ [CHR 0x22] @ ''?'')"
  shows "\<exists>s' k. deletePost confirm stringify index s = Returns s'
           \<and> k < length (history s) \<and> history s ! k = filteredHistory s ! nat index
           \<and> history s' = take k (history s) @ drop (Suc k) (history s)
           \<and> length (history s') = length (history s) - 1
           \<and> localStorage s'
               = (localStorage s)(''postHistory'' \<mapsto> stringify (map (heap s) (history s')))
           \<and> heap s' = heap s \<and> searchQuery s' = searchQuery s \<and> fresh s' = fresh s
           \<and> filteredHistory s' = filteredHistory (applyFilter s')
           \<and> filteredHistory s ! nat index \<notin> set (filteredHistory s')
           \<and> (filteredHistory s = filteredHistory (applyFilter s) \<longrightarrow>
                filteredHistory s'
                  = take (nat index) (filteredHistory s) @ drop (Suc (nat index)) (filteredHistory s))"
proof -
  define P where "P = (\<lambda>post. matchesQuery (searchQuery s) (heap s post))"
  define post where "post = filteredHistory s ! nat index"
  define k where "k = nat (indexOf (history s) post)"
  define h where "h = take k (history s) @ drop (Suc k) (history s)"
  define s1 where "s1 = s\<lparr>history := h,
               localStorage := (localStorage s)(''postHistory'' \<mapsto> stringify (map (heap s) h))\<rparr>"
  have i: "nat index < length (filteredHistory s)" using lower upper by simp
  then have "post \<in> set (filteredHistory s)" unfolding post_def by (rule nth_mem)
  then have mem: "post \<in> set (history s)" using shown by blast
  have found: "0 \<le> indexOf (history s) post" "history s ! k = post"
    using indexOf_member [OF mem] by (simp_all add: k_def)
  have k: "k < length (history s)"
    using indexOf_bounds [of "history s" post] found(1) by (simp add: k_def)
  have "indexOf (history s) post = int k"
    using found(1) by (simp add: k_def)
  then have spliced: "splice1 (indexOf (history s) post) (history s) = h"
    using k by (simp add: splice1_in_range h_def)
  have at: "at_index (filteredHistory s) index = Some post"
    using lower upper by (simp add: at_index_def post_def)
  have yes': "confirm (''Delete '' @ [CHR 0x22] @ title (heap s post) @ [CHR 0x22] @ ''?'')"
    using yes by (simp add: post_def)
  have result: "deletePost confirm stringify index s = Returns (applyFilter s1)"
    using yes' spliced by (simp add: deletePost_def at Let_def s1_def)
  have s1_fields: "history s1 = h" "heap s1 = heap s" "searchQuery s1 = searchQuery s"
    "fresh s1 = fresh s"
    "localStorage s1 = (localStorage s)(''postHistory'' \<mapsto> stringify (map (heap s) h))"
    by (simp_all add: s1_def)
  have kept: "history (applyFilter s1) = history s1" "heap (applyFilter s1) = heap s1"
    "searchQuery (applyFilter s1) = searchQuery s1" "fresh (applyFilter s1) = fresh s1"
    "localStorage (applyFilter s1) = localStorage s1"
    by (simp_all add: applyFilter_def Let_def)
  have recomputed: "filteredHistory (applyFilter s1) = filteredHistory (applyFilter (applyFilter s1))"
    by (simp add: applyFilter_idem)
  have new_view: "filteredHistory (applyFilter s1) = filter P h"
    by (simp add: applyFilter_matches s1_fields P_def)
  have "post \<notin> set h"
    unfolding h_def found(2) [symmetric] using distinct_posts k by (rule nth_not_in_rest)
  then have gone: "post \<notin> set (filteredHistory (applyFilter s1))"
    unfolding new_view by simp
  have exact: "filteredHistory (applyFilter s1)
      = take (nat index) (filteredHistory s) @ drop (Suc (nat index)) (filteredHistory s)"
    if in_sync: "filteredHistory s = filteredHistory (applyFilter s)"
  proof -
    have view: "filteredHistory s = filter P (history s)"
      using in_sync by (simp add: applyFilter_matches P_def)
    have "filter P h = take (nat index) (filter P (history s)) @ drop (Suc (nat index)) (filter P (history s))"
      unfolding h_def
    proof (rule filter_remove_nth)
      show "distinct (history s)" by (rule distinct_posts)
      show "k < length (history s)" by (rule k)
      show "nat index < length (filter P (history s))" using i view by simp
      show "filter P (history s) ! nat index = history s ! k"
        using found(2) view by (simp add: post_def)
    qed
    then show ?thesis unfolding new_view view .
  qed
  have len: "length h = length (history s) - 1"
    unfolding h_def using k by (rule length_remove_nth)
  have "deletePost confirm stringify index s = Returns (applyFilter s1)
           \<and> k < length (history s) \<and> history s ! k = filteredHistory s ! nat index
           \<and> history (applyFilter s1) = take k (history s) @ drop (Suc k) (history s)
           \<and> length (history (applyFilter s1)) = length (history s) - 1
           \<and> localStorage (applyFilter s1)
               = (localStorage s)(''postHistory'' \<mapsto> stringify (map (heap s) (history (applyFilter s1))))
           \<and> heap (applyFilter s1) = heap s \<and> searchQuery (applyFilter s1) = searchQuery s
           \<and> fresh (applyFilter s1) = fresh s
           \<and> filteredHistory (applyFilter s1) = filteredHistory (applyFilter (applyFilter s1))
           \<and> filteredHistory s ! nat index \<notin> set (filteredHistory (applyFilter s1))
           \<and> (filteredHistory s = filteredHistory (applyFilter s) \<longrightarrow>
                filteredHistory (applyFilter s1)
                  = take (nat index) (filteredHistory s) @ drop (Suc (nat index)) (filteredHistory s))"
    using result k found(2) len recomputed gone exact
    by (simp add: post_def h_def kept s1_fields)
  then show ?thesis by blast
qed

text \<open>
  C3, as amended. In every state the component reaches from \<open>ngOnInit\<close> by writes to
  \<open>searchQuery\<close> and calls of \<open>applyFilter\<close>, \<open>viewPost\<close> and \<open>deletePost\<close>, for every
  index within the filtered view and a confirmed dialog, \<open>deletePost\<close> returns; the history
  loses exactly one entry, at the position \<open>k\<close> that holds the post shown at that index,
  and keeps all others in order, so its length goes down by one; local storage gets,
  under \<open>postHistory\<close>, the serialised new history; the filtered view is computed again
  from the new history for the current query and no longer holds that post. When the
  filtered view was the one \<open>applyFilter\<close> computes for the current query, it loses exactly
  the entry at the index and keeps all others in order.
\<close>

theorem deletePost_confirmed:
  assumes reached: "s = run_history stringify events (ngOnInit JSON_parse now s0)"
    and lower: "0 \<le> index" and upper: "index < int (length (filteredHistory s))"
    and yes: "confirm (''Delete '' @ [CHR 0x22] @ title (heap s (filteredHistory s ! nat index))
                        @ [CHR 0x22] @ ''?'')"
  shows "\<exists>s' k. deletePost confirm stringify index s = Returns s'
           \<and> k < length (history s) \<and> history s ! k = filteredHistory s ! nat index
           \<and> history s' = take k (history s) @ drop (Suc k) (history s)
           \<and> length (history s') = length (history s) - 1
           \<and> localStorage s'
               = (localStorage s)(''postHistory'' \<mapsto> stringify (map (heap s) (history s')))
           \<and> heap s' = heap s \<and> searchQuery s' = searchQuery s \<and> fresh s' = fresh s
           \<and> filteredHistory s' = filteredHistory (applyFilter s')
           \<and> filteredHistory s ! nat index \<notin> set (filteredHistory s')
           \<and> (filteredHistory s = filteredHistory (applyFilter s) \<longrightarrow>
                filteredHistory s'
                  = take (nat index) (filteredHistory s) @ drop (Suc (nat index)) (filteredHistory s))"
proof -
  have "distinct (history (ngOnInit JSON_parse now s0))"
    "set (filteredHistory (ngOnInit JSON_parse now s0)) \<subseteq> set (history (ngOnInit JSON_parse now s0))"
    using ngOnInit_keeps [of JSON_parse now s0] by simp_all
  then have "distinct (history s) \<and> set (filteredHistory s) \<subseteq> set (history s)"
    unfolding reached by (rule run_history_keeps)
  then show ?thesis
    using lower upper yes by (intro deletePost_removes) simp_all
qed

text \<open>The two examples, and the second after \<open>deletePost(1)\<close> with a confirmed dialog.\<close>

lemma example_loaded_lists:
  "history example_loaded = [0, 1, 2, 3, 4, 5, 6, 7, 8, 9]
   \<and> filteredHistory example_loaded = [0, 1, 2, 3, 4, 5, 6, 7, 8, 9]
   \<and> filteredHistory (applyFilter example_loaded) = [0, 1, 2, 3, 4, 5, 6, 7, 8, 9]"
  by code_simp

lemma example_stale_lists:
  "history example_stale = [0, 1, 2, 3, 4, 5, 6, 7, 8, 9]
   \<and> filteredHistory example_stale = [0, 1, 2, 3, 4, 5, 6, 7, 8, 9]
   \<and> searchQuery example_stale = ''Tag0''"
  by code_simp

lemma example_stale_deleted:
  "filteredHistory (state_of (deletePost confirm_yes stringify_titles 1 example_stale)) = [0, 5]
   \<and> history (state_of (deletePost confirm_yes stringify_titles 1 example_stale))
        = [0, 2, 3, 4, 5, 6, 7, 8, 9]"
  by code_simp

text \<open>
  Deleting index 1 of the ten placeholders: with the view in step with the query, the
  view loses exactly that entry; with \<open>Tag0\<close> written to the query and not yet applied, the
  history still loses exactly that entry and the post is gone from the view.
\<close>

theorem deletePost_confirmed_witness:
  "(0::int) \<le> 1 \<and> 1 < int (length (filteredHistory example_loaded))
   \<and> filteredHistory example_loaded = filteredHistory (applyFilter example_loaded)
   \<and> length (history (state_of (deletePost confirm_yes stringify_titles 1 example_loaded))) = 9
   \<and> filteredHistory (state_of (deletePost confirm_yes stringify_titles 1 example_loaded))
       = [0, 2, 3, 4, 5, 6, 7, 8, 9]
   \<and> 1 < int (length (filteredHistory example_stale))
   \<and> length (history (state_of (deletePost confirm_yes stringify_titles 1 example_stale))) = 9
   \<and> 1 \<notin> set (filteredHistory (state_of (deletePost confirm_yes stringify_titles 1 example_stale)))"
proof -
  have bounds: "(0::int) \<le> 1" "1 < int (length (filteredHistory example_loaded))"
    "1 < int (length (filteredHistory example_stale))"
    by (simp_all add: example_loaded_lists example_stale_lists)
  have sync: "filteredHistory example_loaded = filteredHistory (applyFilter example_loaded)"
    by (simp add: example_loaded_lists)
  have yes: "confirm_yes (''Delete '' @ [CHR 0x22]
                 @ title (heap example_loaded (filteredHistory example_loaded ! nat 1))
                 @ [CHR 0x22] @ ''?'')"
    "confirm_yes (''Delete '' @ [CHR 0x22]
                 @ title (heap example_stale (filteredHistory example_stale ! nat 1))
                 @ [CHR 0x22] @ ''?'')"
    by (simp_all add: confirm_yes_def)
  obtain a where loaded: "deletePost confirm_yes stringify_titles 1 example_loaded = Returns a"
    "length (history a) = length (history example_loaded) - 1"
    "filteredHistory a
       = take (nat 1) (filteredHistory example_loaded) @ drop (Suc (nat 1)) (filteredHistory example_loaded)"
    using deletePost_confirmed
        [where s = example_loaded and index = 1 and confirm = confirm_yes
           and stringify = stringify_titles, OF example_loaded_def bounds(1,2) yes(1)] sync
    by blast
  obtain b where stale: "deletePost confirm_yes stringify_titles 1 example_stale = Returns b"
    "length (history b) = length (history example_stale) - 1"
    "filteredHistory example_stale ! nat 1 \<notin> set (filteredHistory b)"
    using deletePost_confirmed
        [where s = example_stale and index = 1 and confirm = confirm_yes
           and stringify = stringify_titles, OF example_stale_def bounds(1,3) yes(2)]
    by blast
  have "length (history (state_of (deletePost confirm_yes stringify_titles 1 example_loaded))) = 9"
    "filteredHistory (state_of (deletePost confirm_yes stringify_titles 1 example_loaded))
       = [0, 2, 3, 4, 5, 6, 7, 8, 9]"
    using loaded by (simp_all add: example_loaded_lists)
  moreover have "length (history (state_of (deletePost confirm_yes stringify_titles 1 example_stale))) = 9"
    "1 \<notin> set (filteredHistory (state_of (deletePost confirm_yes stringify_titles 1 example_stale)))"
    using stale by (simp_all add: example_stale_lists)
  ultimately show ?thesis using bounds sync by blast
qed

text \<open>
  Counterexample to C3 as stated: with \<open>Tag0\<close> written to \<open>searchQuery\<close> and the view
  still showing all ten posts, \<open>deletePost(1)\<close> leaves a view of the two posts tagged
  \<open>Tag0\<close>: eight entries have left the view, not one.
\<close>

theorem deletePost_stale_counterexample:
  "(0::int) \<le> 1 \<and> 1 < int (length (filteredHistory example_stale))
   \<and> filteredHistory example_stale = [0, 1, 2, 3, 4, 5, 6, 7, 8, 9]
   \<and> filteredHistory (state_of (deletePost confirm_yes stringify_titles 1 example_stale)) = [0, 5]"
  by (simp add: example_stale_lists example_stale_deleted)

lemma deletePost_throws_iff:
  "(deletePost confirm stringify index s = Throws TypeError s)
     = (index < 0 \<or> int (length (filteredHistory s)) \<le> index)"
  by (auto simp: deletePost_def at_index_def Let_def)

text \<open>
  C9, as amended. For every history list, \<open>deletePost\<close> with an index outside the
  filtered view throws a TypeError while it builds the text of the dialog, whatever the
  user would answer, and leaves the history, the filtered view and local storage as they
  were.
\<close>

theorem deletePost_out_of_bounds:
  assumes "index < 0 \<or> int (length (filteredHistory s)) \<le> index"
  shows "deletePost confirm stringify index s = Throws TypeError s"
  using assms by (simp add: deletePost_throws_iff)

theorem deletePost_out_of_bounds_witness:
  "int (length (filteredHistory (example_history []))) \<le> 2
   \<and> deletePost confirm_yes stringify_titles 2 (example_history []) = Throws TypeError (example_history [])
   \<and> history (state_of (deletePost confirm_yes stringify_titles 2 (example_history []))) = [0, 1]"
  using deletePost_out_of_bounds
    [where index = 2 and s = "example_history []" and confirm = confirm_yes
       and stringify = stringify_titles]
  by (simp add: example_history_def)

text \<open>
  Counterexample to C9 as stated: the example history is not empty and index 2 is outside
  its filtered view, but after \<open>deletePost\<close> the history is not the history without its
  last entry.
\<close>

theorem deletePost_last_counterexample:
  "history (example_history []) \<noteq> []
   \<and> int (length (filteredHistory (example_history []))) \<le> 2
   \<and> history (state_of (deletePost confirm_yes stringify_titles 2 (example_history [])))
        \<noteq> butlast (history (example_history []))"
  by (simp add: deletePost_def at_index_def example_history_def)

section \<open>Properties of DiscoverComponent\<close>

lemma ulp_of_small: "m < 2 ^ 53 \<Longrightarrow> ulp_of m = 1"
  by (subst ulp_of.simps) simp

lemma ulp_of_first_binade: "2 ^ 53 \<le> m \<Longrightarrow> m < 2 ^ 54 \<Longrightarrow> ulp_of m = 2"
proof -
  assume a: "2 ^ 53 \<le> m" "m < 2 ^ 54"
  then have "m div 2 < 2 ^ 53" by simp
  then have "ulp_of (m div 2) = 1" by (rule ulp_of_small)
  then show ?thesis using a(1) by (subst ulp_of.simps) simp
qed

lemma round_to_double_exact: "m \<le> 2 ^ 53 \<Longrightarrow> round_to_double m = m"
proof (cases "m < 2 ^ 53")
  case True
  then show ?thesis by (simp add: round_to_double_def ulp_of_small)
next
  case False
  assume "m \<le> 2 ^ 53"
  then have m: "m = 2 ^ 53" using False by simp
  have "ulp_of m = 2" unfolding m by (rule ulp_of_first_binade) simp_all
  then show ?thesis unfolding round_to_double_def by (simp add: m)
qed

lemma to_double_exact: "\<bar>v\<bar> \<le> 2 ^ 53 \<Longrightarrow> to_double v = v"
  by (simp add: to_double_def round_to_double_exact mult_sgn_abs)

lemma increment_safe: "- (2 ^ 53) \<le> x \<Longrightarrow> x < 2 ^ 53 \<Longrightarrow> increment x = x + 1"
  unfolding increment_def by (rule to_double_exact) simp

text \<open>At \<open>2^53\<close> the counter stays where it is.\<close>

lemma increment_2_53: "increment (2 ^ 53) = 2 ^ 53"
  by code_simp

text \<open>
  C6. For an index within \<open>discoverPosts\<close> and a like counter of the post at that index
  that is a whole number from \<open>-2^53\<close> to below \<open>2^53\<close>, \<open>likePost\<close> returns, the list
  keeps its length, the post at the index has one like more and its other fields as
  before, and every other post is as before.
\<close>

theorem likePost_increments:
  assumes "0 \<le> index" and "index < int (length (discoverPosts s))"
    and "- (2 ^ 53) \<le> likes (discoverPosts s ! nat index)"
    and "likes (discoverPosts s ! nat index) < 2 ^ 53"
  shows "\<exists>s'. likePost index s = Returns s'
           \<and> length (discoverPosts s') = length (discoverPosts s)
           \<and> likes (discoverPosts s' ! nat index) = likes (discoverPosts s ! nat index) + 1
           \<and> dp_title (discoverPosts s' ! nat index) = dp_title (discoverPosts s ! nat index)
           \<and> dp_description (discoverPosts s' ! nat index) = dp_description (discoverPosts s ! nat index)
           \<and> dp_author (discoverPosts s' ! nat index) = dp_author (discoverPosts s ! nat index)
           \<and> dp_tags (discoverPosts s' ! nat index) = dp_tags (discoverPosts s ! nat index)
           \<and> dp_image (discoverPosts s' ! nat index) = dp_image (discoverPosts s ! nat index)
           \<and> (\<forall>j. j \<noteq> nat index \<longrightarrow> discoverPosts s' ! j = discoverPosts s ! j)"
proof -
  have "nat index < length (discoverPosts s)" using assms by simp
  moreover have "increment (likes (discoverPosts s ! nat index)) = likes (discoverPosts s ! nat index) + 1"
    using assms(3,4) by (rule increment_safe)
  ultimately show ?thesis
    using assms(1,2) by (simp add: likePost_def at_index_Some)
qed

theorem likePost_increments_witness:
  "(0::int) \<le> 1 \<and> (1::int) < int (length (discoverPosts (example_discover 5 7)))
   \<and> - (2 ^ 53) \<le> likes (discoverPosts (example_discover 5 7) ! nat 1)
   \<and> likes (discoverPosts (example_discover 5 7) ! nat 1) < 2 ^ 53
   \<and> likePost 1 (example_discover 5 7) = Returns (example_discover 5 8)"
  using likePost_increments [where index = 1 and s = "example_discover 5 7"]
  by (simp add: example_discover_def likePost_def at_index_def increment_safe)

text \<open>
  The counters stay in that range: \<open>generateMockData\<close> starts them below 1000, and a
  click raises one of them by one, so fewer than \<open>2^53 - 1000\<close> clicks leave every counter
  below \<open>2^53\<close>.
\<close>

lemma generateMockData_likes:
  assumes "\<forall>i < 10. likesDraw i < 1000"
  shows "\<forall>post \<in> set (discoverPosts (generateMockData authorDraw likesDraw s)).
           0 \<le> likes post \<and> likes post < 1000"
  using assms by (auto simp: generateMockData_def)

lemma likePost_bound:
  assumes "\<forall>post \<in> set (discoverPosts s). 0 \<le> likes post \<and> likes post \<le> b" and "b < 2 ^ 53"
  shows "\<forall>post \<in> set (discoverPosts (state_of (likePost index s))). 0 \<le> likes post \<and> likes post \<le> b + 1"
proof (cases "at_index (discoverPosts s) index")
  case None
  then show ?thesis using assms(1) by (auto simp: likePost_def)
next
  case (Some post)
  then have mem: "post \<in> set (discoverPosts s)"
    by (auto simp: at_index_def split: if_splits)
  then have range: "0 \<le> likes post" "likes post \<le> b" using assms(1) by auto
  then have inc: "increment (likes post) = likes post + 1"
    using assms(2) by (intro increment_safe) simp_all
  have "set ((discoverPosts s)[nat index := post\<lparr>likes := likes post + 1\<rparr>])
          \<subseteq> insert (post\<lparr>likes := likes post + 1\<rparr>) (set (discoverPosts s))"
    by (rule set_update_subset_insert)
  then have "\<forall>p \<in> set ((discoverPosts s)[nat index := post\<lparr>likes := likes post + 1\<rparr>]).
      0 \<le> likes p \<and> likes p \<le> b + 1"
    using range assms(1) by fastforce
  then show ?thesis
    using Some inc by (simp add: likePost_def)
qed

lemma likePosts_bound:
  assumes "\<forall>post \<in> set (discoverPosts s). 0 \<le> likes post \<and> likes post \<le> b"
    and "b + int (length clicks) \<le> 2 ^ 53"
  shows "\<forall>post \<in> set (discoverPosts (likePosts clicks s)).
           0 \<le> likes post \<and> likes post \<le> b + int (length clicks)"
  using assms
proof (induction clicks arbitrary: s b)
  case Nil
  then show ?case by simp
next
  case (Cons index rest)
  have "b < 2 ^ 53" using Cons.prems(2) by simp
  then have step: "\<forall>post \<in> set (discoverPosts (state_of (likePost index s))).
      0 \<le> likes post \<and> likes post \<le> b + 1"
    using Cons.prems(1) by (intro likePost_bound)
  have "\<forall>post \<in> set (discoverPosts (likePosts rest (state_of (likePost index s)))).
      0 \<le> likes post \<and> likes post \<le> (b + 1) + int (length rest)"
    using step Cons.prems(2) by (intro Cons.IH) simp_all
  then show ?case by (simp add: add.assoc)
qed

lemma likes_stay_safe:
  assumes "\<forall>i < 10. likesDraw i < 1000" and "int (length clicks) < 2 ^ 53 - 1000"
  shows "\<forall>post \<in> set (discoverPosts (likePosts clicks (generateMockData authorDraw likesDraw s))).
           0 \<le> likes post \<and> likes post < 2 ^ 53"
proof -
  have "\<forall>post \<in> set (discoverPosts (generateMockData authorDraw likesDraw s)).
           0 \<le> likes post \<and> likes post \<le> 999"
    using generateMockData_likes [OF assms(1)] by fastforce
  then have "\<forall>post \<in> set (discoverPosts (likePosts clicks (generateMockData authorDraw likesDraw s))).
           0 \<le> likes post \<and> likes post \<le> 999 + int (length clicks)"
    using assms(2) by (intro likePosts_bound) simp_all
  then show ?thesis using assms(2) by fastforce
qed

section \<open>Properties of CreateComponent\<close>

lemma rem_number_nonneg:
  "0 \<le> a \<Longrightarrow> 0 < n \<Longrightarrow> rem_number (Num a) (Num n) = Num (a mod n)"
  by (cases "a = 0") simp_all

lemma succ_mod_cases:
  fixes c n :: int
  assumes "0 \<le> c" "c < n"
  shows "(c + 1) mod n = (if c + 1 = n then 0 else c + 1)"
  using assms by simp

lemma pred_mod_cases:
  fixes c n :: int
  assumes "0 \<le> c" "c < n"
  shows "(c - 1 + n) mod n = (if c = 0 then n - 1 else c - 1)"
proof (cases "c = 0")
  case True
  have "0 \<le> n - 1" "n - 1 < n" using assms by simp_all
  then have "(n - 1) mod n = n - 1" by (rule mod_pos_pos_trivial)
  moreover have "c - 1 + n = n - 1" using True by simp
  ultimately show ?thesis using True by simp
next
  case False
  then have "0 \<le> c - 1" "c - 1 < n" using assms by simp_all
  then have "(c - 1) mod n = c - 1" by (rule mod_pos_pos_trivial)
  then show ?thesis using False by simp
qed

lemma nextCard_index:
  assumes "currentCardIndex s = Num c" and "0 \<le> c" and "c < int (length (previewCards s))"
  shows "currentCardIndex (nextCard s) = Num (if c + 1 = int (length (previewCards s)) then 0 else c + 1)"
proof -
  let ?n = "int (length (previewCards s))"
  have "currentCardIndex (nextCard s) = rem_number (Num (c + 1)) (Num ?n)"
    using assms(1) by (simp add: nextCard_def previewCards_length_def)
  also have "\<dots> = Num ((c + 1) mod ?n)"
    using assms by (intro rem_number_nonneg) auto
  also have "(c + 1) mod ?n = (if c + 1 = ?n then 0 else c + 1)"
    using assms(2,3) by (rule succ_mod_cases)
  finally show ?thesis .
qed

lemma prevCard_index:
  assumes "currentCardIndex s = Num c" and "0 \<le> c" and "c < int (length (previewCards s))"
  shows "currentCardIndex (prevCard s) = Num (if c = 0 then int (length (previewCards s)) - 1 else c - 1)"
proof -
  let ?n = "int (length (previewCards s))"
  have "currentCardIndex (prevCard s) = rem_number (Num (c - 1 + ?n)) (Num ?n)"
    using assms(1) by (simp add: prevCard_def previewCards_length_def)
  also have "\<dots> = Num ((c - 1 + ?n) mod ?n)"
    using assms by (intro rem_number_nonneg) auto
  also have "(c - 1 + ?n) mod ?n = (if c = 0 then ?n - 1 else c - 1)"
    using assms(2,3) by (rule pred_mod_cases)
  finally show ?thesis .
qed

lemma previewCards_nextCard: "previewCards (nextCard s) = previewCards s"
  by (simp add: nextCard_def)

lemma previewCards_prevCard: "previewCards (prevCard s) = previewCards s"
  by (simp add: prevCard_def)

text \<open>
  C10. When \<open>currentCardIndex\<close> is a whole number \<open>c\<close> with
  \<open>0 \<le> c < previewCards.length\<close>, \<open>nextCard\<close> and \<open>prevCard\<close> each leave it a whole
  number in that range, and \<open>nextCard\<close> followed by \<open>prevCard\<close>, as well as \<open>prevCard\<close>
  followed by \<open>nextCard\<close>, gives \<open>c\<close> again.
\<close>

theorem card_index:
  assumes "currentCardIndex s = Num c" and "0 \<le> c" and "c < int (length (previewCards s))"
  shows "(\<exists>c'. currentCardIndex (nextCard s) = Num c' \<and> 0 \<le> c' \<and> c' < int (length (previewCards s)))
       \<and> (\<exists>c'. currentCardIndex (prevCard s) = Num c' \<and> 0 \<le> c' \<and> c' < int (length (previewCards s)))
       \<and> currentCardIndex (prevCard (nextCard s)) = Num c
       \<and> currentCardIndex (nextCard (prevCard s)) = Num c"
proof -
  let ?n = "int (length (previewCards s))"
  define up where "up = (if c + 1 = ?n then 0 else c + 1)"
  define down where "down = (if c = 0 then ?n - 1 else c - 1)"
  have up: "currentCardIndex (nextCard s) = Num up"
    unfolding up_def using assms by (rule nextCard_index)
  have down: "currentCardIndex (prevCard s) = Num down"
    unfolding down_def using assms by (rule prevCard_index)
  have up_range: "0 \<le> up" "up < ?n" using assms by (auto simp: up_def)
  have down_range: "0 \<le> down" "down < ?n" using assms by (auto simp: down_def)
  have "currentCardIndex (prevCard (nextCard s))
          = Num (if up = 0 then int (length (previewCards (nextCard s))) - 1 else up - 1)"
    using up up_range by (intro prevCard_index) (simp_all add: previewCards_nextCard)
  also have "(if up = 0 then int (length (previewCards (nextCard s))) - 1 else up - 1) = c"
    using assms(2,3) by (auto simp: up_def previewCards_nextCard)
  finally have there_and_back: "currentCardIndex (prevCard (nextCard s)) = Num c" .
  have "currentCardIndex (nextCard (prevCard s))
          = Num (if down + 1 = int (length (previewCards (prevCard s))) then 0 else down + 1)"
    using down down_range by (intro nextCard_index) (simp_all add: previewCards_prevCard)
  also have "(if down + 1 = int (length (previewCards (prevCard s))) then 0 else down + 1) = c"
    using assms(2,3) by (auto simp: down_def previewCards_prevCard)
  finally have back_and_there: "currentCardIndex (nextCard (prevCard s)) = Num c" .
  show ?thesis using up down up_range down_range there_and_back back_and_there by blast
qed

theorem card_index_witness:
  "currentCardIndex CreateComponent_init = Num 0 \<and> (0::int) \<le> 0
   \<and> 0 < int (length (previewCards CreateComponent_init))
   \<and> currentCardIndex (nextCard CreateComponent_init) = Num 1
   \<and> currentCardIndex (prevCard CreateComponent_init) = Num 2
   \<and> currentCardIndex (prevCard (nextCard CreateComponent_init)) = Num 0
   \<and> currentCardIndex (nextCard (prevCard CreateComponent_init)) = Num 0"
  using card_index [of CreateComponent_init 0]
  by (simp add: CreateComponent_init_def nextCard_def prevCard_def previewCards_length_def)

section \<open>Properties of the modal flags of DashboardComponent\<close>

text \<open>
  C7. From every state, toggling a modal twice gives its visibility flag the value it had:
  \<open>showProfile\<close> under \<open>toggleProfile\<close>, \<open>showLogin\<close> under \<open>toggleLogin\<close>, and
  \<open>showSignup\<close> under \<open>toggleSignup\<close>; no other field changes either.
\<close>

theorem toggle_twice:
  "showProfile (toggleProfile (toggleProfile s)) = showProfile s
   \<and> showLogin (toggleLogin (toggleLogin s)) = showLogin s
   \<and> showSignup (toggleSignup (toggleSignup s)) = showSignup s
   \<and> toggleProfile (toggleProfile s) = s
   \<and> toggleLogin (toggleLogin s) = s
   \<and> toggleSignup (toggleSignup s) = s"
  by (simp add: toggleProfile_def toggleLogin_def toggleSignup_def)

text \<open>
  C8. From every state, \<open>closeLogin\<close> and \<open>closeSignup\<close> leave \<open>isLoggedIn\<close> true and
  the \<open>overflow\<close> style of the body removed (so the scroll lock is off), and close their
  modal; they take no credentials. \<open>onLogin\<close> and \<open>onSignup\<close> return their component
  unchanged, whatever the email, name and password are.
\<close>

theorem close_logs_in:
  "isLoggedIn (closeLogin s) \<and> style (closeLogin s) Body ''overflow'' = None
   \<and> \<not> scrollLocked (closeLogin s) \<and> \<not> showLogin (closeLogin s)
   \<and> isLoggedIn (closeSignup s) \<and> style (closeSignup s) Body ''overflow'' = None
   \<and> \<not> scrollLocked (closeSignup s) \<and> \<not> showSignup (closeSignup s)
   \<and> fst (onLogin l) = l \<and> fst (onSignup g) = g"
  by (simp add: closeLogin_def closeSignup_def updateScrollLock_def removeStyle_def
      scrollLocked_def onLogin_def onSignup_def)

section \<open>The scroll lock of DashboardComponent\<close>

lemma updateIndicatorPosition_frame:
  "isLoggedIn (state_of (updateIndicatorPosition d s)) = isLoggedIn s
   \<and> style (state_of (updateIndicatorPosition d s)) Body ''overflow'' = style s Body ''overflow''"
  by (simp add: updateIndicatorPosition_def setStyle_def Let_def
      split: option.split)

lemma updateScrollLock_locks:
  "style (updateScrollLock s) Body ''overflow''
     = (if isLoggedIn (updateScrollLock s) then None else Some (Text ''hidden''))"
  by (simp add: updateScrollLock_def setStyle_def removeStyle_def)

lemma handleScroll_loop_frame:
  "isLoggedIn (state_of (handleScroll_loop d y n s)) = isLoggedIn s
   \<and> style (state_of (handleScroll_loop d y n s)) Body ''overflow'' = style s Body ''overflow''"
  by (induction n) (simp_all add: updateIndicatorPosition_frame)

lemma handle_keeps_lock:
  assumes "style s Body ''overflow'' = (if isLoggedIn s then None else Some (Text ''hidden''))"
  shows "style (state_of (handle d ev s)) Body ''overflow''
           = (if isLoggedIn (state_of (handle d ev s)) then None else Some (Text ''hidden''))"
proof (cases ev)
  case (NavigateToSection sectionId index)
  have frame: "isLoggedIn (state_of (setActive d index s)) = isLoggedIn s
      \<and> style (state_of (setActive d index s)) Body ''overflow'' = style s Body ''overflow''"
    using updateIndicatorPosition_frame [of d "s\<lparr>activeIndex := index\<rparr>"]
    by (simp add: setActive_def)
  show ?thesis
    using assms frame unfolding NavigateToSection
    by (cases "setActive d index s")
       (auto simp: navigateToSection_def toggleProfile_def
             split: option.split)
next
  case (SetActive index)
  then show ?thesis
    using assms updateIndicatorPosition_frame [of d "s\<lparr>activeIndex := index\<rparr>"]
    by (simp add: setActive_def)
next
  case OnWindowScroll
  then show ?thesis using assms by (simp add: onWindowScroll_def)
next
  case AnimationFrame
  have frame: "isLoggedIn (state_of (handleScroll d s)) = isLoggedIn s
      \<and> style (state_of (handleScroll d s)) Body ''overflow'' = style s Body ''overflow''"
    by (simp add: handleScroll_def handleScroll_loop_frame)
  show ?thesis
    using assms frame unfolding AnimationFrame
    by (cases "handleScroll d s") (auto simp: animationFrame_def)
next
  case OnResize
  then show ?thesis using assms by (simp add: onResize_def calculateSectionOffsets_def)
next
  case ToggleProfile
  then show ?thesis using assms by (simp add: toggleProfile_def)
next
  case CloseProfile
  then show ?thesis using assms by (simp add: closeProfile_def)
next
  case ToggleLogin
  then show ?thesis using assms by (simp add: toggleLogin_def)
next
  case CloseLogin
  then show ?thesis by (simp add: closeLogin_def updateScrollLock_locks)
next
  case ToggleSignup
  then show ?thesis using assms by (simp add: toggleSignup_def)
next
  case CloseSignup
  then show ?thesis by (simp add: closeSignup_def updateScrollLock_locks)
next
  case HandleLogout
  then show ?thesis
    using updateScrollLock_locks [of "closeProfile (s\<lparr>isLoggedIn := False\<rparr>)"]
    by (simp add: handleLogout_def)
next
  case (OnLeave closest)
  then show ?thesis
    using assms by (cases closest) (auto simp: onLeave_def removeStyle_def)
next
  case OffsetsTimeout
  then show ?thesis using assms by (simp add: calculateSectionOffsets_def)
next
  case RecalcTimeout
  then show ?thesis
    using assms updateIndicatorPosition_frame [of d "calculateSectionOffsets d s"]
    by (simp add: recalcTimeout_def calculateSectionOffsets_def)
next
  case ClickScrollTimeout
  then show ?thesis using assms by (simp add: clickScrollTimeout_def)
qed

lemma run_keeps_lock:
  "style s Body ''overflow'' = (if isLoggedIn s then None else Some (Text ''hidden''))
   \<Longrightarrow> style (run evs s) Body ''overflow''
         = (if isLoggedIn (run evs s) then None else Some (Text ''hidden''))"
proof (induction evs arbitrary: s)
  case Nil
  then show ?case by simp
next
  case (Cons a evs)
  obtain d ev where a: "a = (d, ev)" by (cases a)
  show ?case unfolding a run.simps
    by (rule Cons.IH) (rule handle_keeps_lock [OF Cons.prems])
qed

lemma ngAfterViewInit_returns:
  "\<exists>s'. ngAfterViewInit d (DashboardComponent_init styles) = Returns (updateScrollLock s')"
  by (auto simp: ngAfterViewInit_def DashboardComponent_init_def updateIndicatorPosition_def
        at_index_def Let_def split: option.split)

lemma ngAfterViewInit_locks:
  "style (state_of (ngAfterViewInit d (DashboardComponent_init styles))) Body ''overflow''
     = (if isLoggedIn (state_of (ngAfterViewInit d (DashboardComponent_init styles)))
        then None else Some (Text ''hidden''))"
proof -
  obtain s' where "ngAfterViewInit d (DashboardComponent_init styles) = Returns (updateScrollLock s')"
    using ngAfterViewInit_returns [of d styles] by blast
  then show ?thesis using updateScrollLock_locks [of s'] by simp
qed

text \<open>
  C4, as amended. In every state the component reaches after \<open>ngAfterViewInit\<close>, by any
  run of its methods, listeners and callbacks, the \<open>overflow\<close> style of the body is
  \<open>hidden\<close> while \<open>isLoggedIn\<close> is false and is not set while \<open>isLoggedIn\<close> is true; so
  page scroll is disabled exactly while \<open>isLoggedIn\<close> is false. The three toggles of the
  modals leave every style as it is.
\<close>

theorem scroll_lock_follows_login:
  "style (run evs (state_of (ngAfterViewInit d (DashboardComponent_init styles)))) Body ''overflow''
     = (if isLoggedIn (run evs (state_of (ngAfterViewInit d (DashboardComponent_init styles))))
        then None else Some (Text ''hidden''))
   \<and> scrollLocked (run evs (state_of (ngAfterViewInit d (DashboardComponent_init styles))))
       = (\<not> isLoggedIn (run evs (state_of (ngAfterViewInit d (DashboardComponent_init styles)))))
   \<and> style (toggleProfile s) = style s \<and> style (toggleLogin s) = style s
   \<and> style (toggleSignup s) = style s"
  using run_keeps_lock [OF ngAfterViewInit_locks, of evs d styles]
  by (simp add: toggleProfile_def toggleLogin_def toggleSignup_def scrollLocked_def)

text \<open>The state after \<open>ngAfterViewInit\<close> in the document without elements.\<close>

lemma after_init_empty:
  "state_of (ngAfterViewInit empty_dom (DashboardComponent_init no_styles))
     = (DashboardComponent_init no_styles)
         \<lparr>tabs := Some [], style := no_styles(Body := [''overflow'' \<mapsto> Text ''hidden''])\<rparr>"
  by (simp add: ngAfterViewInit_def DashboardComponent_init_def updateIndicatorPosition_def
      empty_dom_def updateScrollLock_def setStyle_def no_styles_def)

theorem scroll_lock_follows_login_witness:
  "isLoggedIn (run [(empty_dom, ToggleLogin), (empty_dom, CloseLogin), (empty_dom, ToggleProfile)]
       (state_of (ngAfterViewInit empty_dom (DashboardComponent_init no_styles))))
   \<and> style (run [(empty_dom, ToggleLogin), (empty_dom, CloseLogin), (empty_dom, ToggleProfile)]
         (state_of (ngAfterViewInit empty_dom (DashboardComponent_init no_styles)))) Body ''overflow''
       = None
   \<and> \<not> isLoggedIn (run [(empty_dom, ToggleLogin)]
         (state_of (ngAfterViewInit empty_dom (DashboardComponent_init no_styles))))
   \<and> style (run [(empty_dom, ToggleLogin)]
         (state_of (ngAfterViewInit empty_dom (DashboardComponent_init no_styles)))) Body ''overflow''
       = Some (Text ''hidden'')"
proof -
  have logged_in: "isLoggedIn (run [(empty_dom, ToggleLogin), (empty_dom, CloseLogin), (empty_dom, ToggleProfile)]
       (state_of (ngAfterViewInit empty_dom (DashboardComponent_init no_styles))))"
    unfolding after_init_empty
    by (simp add: toggleLogin_def closeLogin_def toggleProfile_def updateScrollLock_def
        removeStyle_def DashboardComponent_init_def)
  have logged_out: "\<not> isLoggedIn (run [(empty_dom, ToggleLogin)]
         (state_of (ngAfterViewInit empty_dom (DashboardComponent_init no_styles))))"
    unfolding after_init_empty
    by (simp add: toggleLogin_def DashboardComponent_init_def)
  have removed: "style (run [(empty_dom, ToggleLogin), (empty_dom, CloseLogin), (empty_dom, ToggleProfile)]
         (state_of (ngAfterViewInit empty_dom (DashboardComponent_init no_styles)))) Body ''overflow''
       = None"
    using logged_in
      scroll_lock_follows_login
        [of "[(empty_dom, ToggleLogin), (empty_dom, CloseLogin), (empty_dom, ToggleProfile)]"
            empty_dom no_styles, THEN conjunct1]
    by (simp only: if_True)
  have hidden: "style (run [(empty_dom, ToggleLogin)]
         (state_of (ngAfterViewInit empty_dom (DashboardComponent_init no_styles)))) Body ''overflow''
       = Some (Text ''hidden'')"
    using logged_out
      scroll_lock_follows_login [of "[(empty_dom, ToggleLogin)]" empty_dom no_styles, THEN conjunct1]
    by (simp only: if_False)
  show ?thesis
    using logged_in removed logged_out hidden by blast
qed

text \<open>
  Counterexample to C4 as stated: right after \<open>ngAfterViewInit\<close> the scroll lock is on
  and no modal is open; and after \<open>closeLogin\<close> and \<open>toggleProfile\<close> the profile modal is
  open and the scroll lock is off.
\<close>

theorem scroll_lock_modal_counterexample:
  "scrollLocked (run [] (state_of (ngAfterViewInit empty_dom (DashboardComponent_init no_styles))))
   \<and> \<not> modalOpen (run [] (state_of (ngAfterViewInit empty_dom (DashboardComponent_init no_styles))))
   \<and> modalOpen (run [(empty_dom, CloseLogin), (empty_dom, ToggleProfile)]
         (state_of (ngAfterViewInit empty_dom (DashboardComponent_init no_styles))))
   \<and> \<not> scrollLocked (run [(empty_dom, CloseLogin), (empty_dom, ToggleProfile)]
         (state_of (ngAfterViewInit empty_dom (DashboardComponent_init no_styles))))"
  unfolding after_init_empty
  by (simp add: scrollLocked_def modalOpen_def DashboardComponent_init_def
      closeLogin_def toggleProfile_def updateScrollLock_def removeStyle_def)

section \<open>Guards\<close>

lemma updateIndicatorPosition_guard:
  "indicator ds = None \<or> tabs ds = None \<or> tabs ds = Some [] \<or> navContainer ds = None
     \<Longrightarrow> updateIndicatorPosition d ds = Returns ds"
  by (auto simp: updateIndicatorPosition_def split: option.split)

lemma updateIndicatorPosition_throws:
  assumes "indicator ds = Some ind" and "navContainer ds = Some container"
    and "tabs ds = Some ts" and "ts \<noteq> []"
    and "activeIndex ds < 0 \<or> int (length ts) \<le> activeIndex ds"
  shows "updateIndicatorPosition d ds = Throws TypeError ds"
  using assms by (auto simp: updateIndicatorPosition_def at_index_def)

lemma setActive_throws:
  assumes "indicator ds = Some ind" and "navContainer ds = Some container"
    and "tabs ds = Some ts" and "ts \<noteq> []"
    and "j < 0 \<or> int (length ts) \<le> j"
  shows "setActive d j ds = Throws TypeError (ds\<lparr>activeIndex := j\<rparr>)"
  unfolding setActive_def
  using assms by (intro updateIndicatorPosition_throws [where ind = ind and container = container and ts = ts]) simp_all

lemma navigateToSection_missing_section:
  assumes "at_index navItems j = Some item" and "name item \<noteq> ''Profile''"
    and "sectionId = [] \<or> getElementById d sectionId = None"
  shows "navigateToSection d sectionId j ds = setActive d j ds"
  using assms by (cases "setActive d j ds") (auto simp: navigateToSection_def)

lemma navigateToSection_throws:
  "j < 0 \<or> int (length navItems) \<le> j \<Longrightarrow> navigateToSection d sectionId j ds = Throws TypeError ds"
  by (auto simp: navigateToSection_def at_index_def)

lemma calculateSectionOffsets_missing:
  assumes "item \<in> set navItems" and "target item \<noteq> []" and "getElementById d (target item) = None"
  shows "(target item, 0) \<in> set (sectionOffsets (calculateSectionOffsets d ds))"
proof -
  have "item \<in> set (filter (\<lambda>item. target item \<noteq> []) navItems)" using assms(1,2) by simp
  then have "(target item, (case getElementById d (target item) of None \<Rightarrow> 0 | Some section \<Rightarrow> offsetTop d section))
      \<in> set (sectionOffsets (calculateSectionOffsets d ds))"
    unfolding calculateSectionOffsets_def by (simp add: image_iff) blast
  then show ?thesis using assms(3) by simp
qed

text \<open>
  C5, as amended. In DashboardComponent, HistoryComponent and DiscoverComponent these
  look-ups are guarded: \<open>updateIndicatorPosition\<close> returns without a change when the
  indicator, the tab list or the nav container is missing or there is no tab;
  \<open>navigateToSection\<close>, for the index of a nav item other than Profile, ends with what
  \<open>setActive\<close> gives when the section id is empty or no element has that id;
  \<open>calculateSectionOffsets\<close> takes 0 as the offset of a section that is missing; \<open>onLeave\<close>
  changes nothing when there is no container. These are not guarded and throw a
  TypeError: \<open>updateIndicatorPosition\<close> when the three references are there, the tab list
  is not empty and \<open>activeIndex\<close> is outside it, and so \<open>setActive\<close> with an index outside
  the tabs, after it has assigned \<open>activeIndex\<close>; \<open>navigateToSection\<close> with an index outside
  \<open>navItems\<close>; \<open>likePost\<close> and \<open>viewPost\<close> of DiscoverComponent with an index outside
  \<open>discoverPosts\<close>; \<open>viewPost\<close> and \<open>deletePost\<close> of HistoryComponent with an index outside
  \<open>filteredHistory\<close>. On an empty list that is every index.
\<close>

theorem index_guards:
  "(indicator ds = None \<or> tabs ds = None \<or> tabs ds = Some [] \<or> navContainer ds = None
      \<longrightarrow> updateIndicatorPosition d ds = Returns ds)
   \<and> (at_index navItems j = Some item \<and> name item \<noteq> ''Profile''
        \<and> (sectionId = [] \<or> getElementById d sectionId = None)
      \<longrightarrow> navigateToSection d sectionId j ds = setActive d j ds)
   \<and> (item \<in> set navItems \<and> target item \<noteq> [] \<and> getElementById d (target item) = None
      \<longrightarrow> (target item, 0) \<in> set (sectionOffsets (calculateSectionOffsets d ds)))
   \<and> onLeave None ds = ds
   \<and> (indicator ds = Some ind \<and> navContainer ds = Some container \<and> tabs ds = Some ts \<and> ts \<noteq> []
        \<and> (activeIndex ds < 0 \<or> int (length ts) \<le> activeIndex ds)
      \<longrightarrow> updateIndicatorPosition d ds = Throws TypeError ds)
   \<and> (indicator ds = Some ind \<and> navContainer ds = Some container \<and> tabs ds = Some ts \<and> ts \<noteq> []
        \<and> (j < 0 \<or> int (length ts) \<le> j)
      \<longrightarrow> setActive d j ds = Throws TypeError (ds\<lparr>activeIndex := j\<rparr>))
   \<and> (j < 0 \<or> int (length navItems) \<le> j
      \<longrightarrow> navigateToSection d sectionId j ds = Throws TypeError ds)
   \<and> (i < 0 \<or> int (length (discoverPosts s)) \<le> i
      \<longrightarrow> likePost i s = Throws TypeError s \<and> viewPost_discover i s = Inl TypeError)
   \<and> (i < 0 \<or> int (length (filteredHistory h)) \<le> i
      \<longrightarrow> viewPost i h = Inl TypeError \<and> deletePost confirm stringify i h = Throws TypeError h)"
proof -
  have discover: "i < 0 \<or> int (length (discoverPosts s)) \<le> i
      \<longrightarrow> likePost i s = Throws TypeError s \<and> viewPost_discover i s = Inl TypeError"
    by (auto simp: likePost_def viewPost_discover_def at_index_def)
  have hist: "i < 0 \<or> int (length (filteredHistory h)) \<le> i
      \<longrightarrow> viewPost i h = Inl TypeError \<and> deletePost confirm stringify i h = Throws TypeError h"
    by (auto simp: viewPost_def at_index_def deletePost_throws_iff)
  have leave: "onLeave None ds = ds" by (simp add: onLeave_def)
  show ?thesis
    using updateIndicatorPosition_guard [of ds d]
      navigateToSection_missing_section [of j item sectionId d ds]
      calculateSectionOffsets_missing [of item d ds]
      updateIndicatorPosition_throws [of ds ind container ts d]
      setActive_throws [of ds ind container ts j d]
      navigateToSection_throws [of j d sectionId ds]
      discover hist leave
    by blast
qed

lemma example_dashboard_refs:
  "indicator example_dashboard = Some (Element 0)
   \<and> navContainer example_dashboard = Some (Element 4)
   \<and> tabs example_dashboard = Some [Element 1, Element 2, Element 3]"
  by (simp add: example_dashboard_def ngAfterViewInit_def updateIndicatorPosition_def
      DashboardComponent_init_def example_dom_def at_index_def Let_def setStyle_def
      updateScrollLock_def)

theorem index_guards_witness:
  "updateIndicatorPosition empty_dom (DashboardComponent_init no_styles)
     = Returns (DashboardComponent_init no_styles)
   \<and> navigateToSection example_dom ''hero'' 0 example_dashboard = setActive example_dom 0 example_dashboard
   \<and> (''hero'', 0) \<in> set (sectionOffsets (calculateSectionOffsets example_dom example_dashboard))
   \<and> updateIndicatorPosition example_dom (example_dashboard\<lparr>activeIndex := 3\<rparr>)
       = Throws TypeError (example_dashboard\<lparr>activeIndex := 3\<rparr>)
   \<and> setActive example_dom 5 example_dashboard = Throws TypeError (example_dashboard\<lparr>activeIndex := 5\<rparr>)
   \<and> navigateToSection example_dom ''hero'' 6 example_dashboard = Throws TypeError example_dashboard
   \<and> likePost 0 no_discover = Throws TypeError no_discover
   \<and> viewPost_discover 0 no_discover = Inl TypeError
   \<and> viewPost 2 (example_history []) = Inl TypeError
   \<and> deletePost confirm_yes stringify_titles 2 (example_history []) = Throws TypeError (example_history [])"
proof -
  let ?home = "\<lparr>name = ''Home'', target = ''hero'', icon = ''pi-home''\<rparr>"
  have no_refs: "indicator (DashboardComponent_init no_styles) = None"
    by (simp add: DashboardComponent_init_def)
  have home: "at_index navItems 0 = Some ?home" "name ?home \<noteq> ''Profile''"
    "?home \<in> set navItems" "target ?home \<noteq> []"
    by (simp_all add: navItems_def at_index_def)
  have no_section: "getElementById example_dom ''hero'' = None"
    "getElementById example_dom (target ?home) = None"
    by (simp_all add: example_dom_def)
  have refs: "indicator example_dashboard = Some (Element 0)"
    "navContainer example_dashboard = Some (Element 4)"
    "tabs example_dashboard = Some [Element 1, Element 2, Element 3]"
    using example_dashboard_refs by simp_all
  have six: "int (length navItems) \<le> 6" by (simp add: navItems_def)
  have none: "int (length (discoverPosts no_discover)) \<le> 0" by (simp add: no_discover_def)
  have two: "int (length (filteredHistory (example_history []))) \<le> 2"
    by (simp add: example_history_def)
  have a: "updateIndicatorPosition empty_dom (DashboardComponent_init no_styles)
     = Returns (DashboardComponent_init no_styles)"
    using index_guards [where ds = "DashboardComponent_init no_styles" and d = empty_dom] no_refs
    by blast
  have b: "navigateToSection example_dom ''hero'' 0 example_dashboard = setActive example_dom 0 example_dashboard"
    "(''hero'', 0) \<in> set (sectionOffsets (calculateSectionOffsets example_dom example_dashboard))"
    "setActive example_dom 5 example_dashboard = Throws TypeError (example_dashboard\<lparr>activeIndex := 5\<rparr>)"
    using index_guards [where ds = example_dashboard and d = example_dom and j = 0 and item = ?home
        and sectionId = "''hero''"]
      index_guards [where ds = example_dashboard and d = example_dom and j = 5
        and ind = "Element 0" and container = "Element 4" and ts = "[Element 1, Element 2, Element 3]"]
      home no_section refs
    by simp_all
  have c: "updateIndicatorPosition example_dom (example_dashboard\<lparr>activeIndex := 3\<rparr>)
       = Throws TypeError (example_dashboard\<lparr>activeIndex := 3\<rparr>)"
    using index_guards [where ds = "example_dashboard\<lparr>activeIndex := 3\<rparr>" and d = example_dom
        and ind = "Element 0" and container = "Element 4" and ts = "[Element 1, Element 2, Element 3]"]
      refs
    by simp
  have e: "navigateToSection example_dom ''hero'' 6 example_dashboard = Throws TypeError example_dashboard"
    using index_guards [where ds = example_dashboard and d = example_dom and j = 6
        and sectionId = "''hero''"] six
    by blast
  have f: "likePost 0 no_discover = Throws TypeError no_discover"
    "viewPost_discover 0 no_discover = Inl TypeError"
    using index_guards [where i = 0 and s = no_discover] none by blast+
  have g: "viewPost 2 (example_history []) = Inl TypeError"
    "deletePost confirm_yes stringify_titles 2 (example_history []) = Throws TypeError (example_history [])"
    using index_guards [where i = 2 and h = "example_history []" and confirm = confirm_yes
        and stringify = stringify_titles] two
    by blast+
  show ?thesis using a b c e f g by blast
qed

text \<open>
  Counterexample to C5 as stated: \<open>likePost(0)\<close> on a component without posts throws.
\<close>

theorem likePost_empty_counterexample:
  "discoverPosts no_discover = [] \<and> likePost 0 no_discover = Throws TypeError no_discover"
  by (simp add: likePost_def at_index_def no_discover_def)

end
